theory Spec2Isabelle
  imports Complex_Main "HOL-Library.Sublist"
begin

section \<open>JavaScript values\<close>

text \<open>
  The server works on whatever \<^verbatim>\<open>express.json()\<close> parsed from a request body
  and on whatever \<^verbatim>\<open>JSON.parse\<close> read back from the listings file, so a listing
  is an arbitrary JSON value and not a typed record.  Objects are association lists
  read with \<open>map_of\<close> (a parsed object holds each key once); strings are byte lists
  holding the UTF-8 encoding of the text.  JavaScript's \<^verbatim>\<open>undefined\<close> is \<open>None\<close>
  of \<open>json option\<close>.

  A parsed number is a double: a finite one, which is a rational (\<open>Fin 0\<close> is the
  positive zero), the negative zero that \<^verbatim>\<open>JSON.parse\<close> gives for \<^verbatim>\<open>-0\<close>, or one of
  the infinities it gives for a numeral beyond the range of doubles such as
  \<^verbatim>\<open>1e999\<close>.
\<close>

datatype jnum = Fin rat | NegZero | PosInf | NegInf

datatype json =
    JNull
  | JBool bool
  | JNum jnum
  | JStr string
  | JArr "json list"
  | JObj "(string \<times> json) list"

datatype exn = TypeError | SyntaxError | ReadError | WriteError | UpstreamError

text \<open>
  \<^verbatim>\<open>v.k\<close> for a value that is neither \<^verbatim>\<open>null\<close> nor \<^verbatim>\<open>undefined\<close>, and for the
  property names this program reads (none of them is defined on a prototype): only an
  object can hold it.
\<close>

fun get_prop :: "json \<Rightarrow> string \<Rightarrow> json option" where
  "get_prop (JObj kvs) k = map_of kvs k"
| "get_prop _ k = None"

text \<open>\<^verbatim>\<open>v?.k\<close>: \<^verbatim>\<open>undefined\<close> when \<open>v\<close> is \<^verbatim>\<open>null\<close> or \<^verbatim>\<open>undefined\<close>.\<close>

fun opt_prop :: "json option \<Rightarrow> string \<Rightarrow> json option" where
  "opt_prop None k = None"
| "opt_prop (Some JNull) k = None"
| "opt_prop (Some v) k = get_prop v k"

text \<open>ToBoolean.\<close>

fun truthy :: "json option \<Rightarrow> bool" where
  "truthy None = False"
| "truthy (Some JNull) = False"
| "truthy (Some (JBool b)) = b"
| "truthy (Some (JNum n)) = (n \<noteq> Fin 0 \<and> n \<noteq> NegZero)"
| "truthy (Some (JStr s)) = (s \<noteq> [])"
| "truthy (Some (JArr xs)) = True"
| "truthy (Some (JObj kvs)) = True"

text \<open>
  \<^verbatim>\<open>x || y\<close>, and the same with a right operand \<open>d\<close> that is a value and not
  \<^verbatim>\<open>undefined\<close>.
\<close>

definition js_or :: "json option \<Rightarrow> json option \<Rightarrow> json option" where
  "js_or x y = (if truthy x then x else y)"

definition or_default :: "json option \<Rightarrow> json \<Rightarrow> json" where
  "or_default x d = (case x of None \<Rightarrow> d | Some v \<Rightarrow> if truthy (Some v) then v else d)"

text \<open>
  \<^verbatim>\<open>JSON.parse(JSON.stringify(v))\<close>: what is left of a value once it has been
  written as JSON text, to the listings file or into a response, and read again.
  \<^verbatim>\<open>JSON.stringify\<close> writes an infinity as \<^verbatim>\<open>null\<close> and the negative zero as
  \<^verbatim>\<open>0\<close>; everything else comes back as it was.
\<close>

fun stringify_parse :: "json \<Rightarrow> json" where
  "stringify_parse (JNum n) =
     (case n of
        Fin q \<Rightarrow> JNum (Fin q)
      | NegZero \<Rightarrow> JNum (Fin 0)
      | PosInf \<Rightarrow> JNull
      | NegInf \<Rightarrow> JNull)"
| "stringify_parse (JArr xs) = JArr (map stringify_parse xs)"
| "stringify_parse (JObj kvs) = JObj (map (\<lambda>(k, v). (k, stringify_parse v)) kvs)"
| "stringify_parse v = v"

text \<open>
  What the server cannot compute from its arguments: the directory of the script and
  the files below it (a path leads to nothing, to a file with its bytes, or to
  something that exists and cannot be read as a file), the text of
  \<^verbatim>\<open>new Date().toLocaleString()\<close>, the decimal text JavaScript prints for a number,
  and the integer \<^verbatim>\<open>Intl.NumberFormat\<close> prints where binary floating point rounds
  (see \<open>intl_integer\<close>).
\<close>

datatype fsnode = FileBytes string | NotAFile

record env =
  dirname :: string
  fs :: "string \<Rightarrow> fsnode option"
  now_text :: string
  num_text :: "rat \<Rightarrow> string"
  intl_inexact :: "rat \<Rightarrow> nat"

section \<open>Strings\<close>

text \<open>\<^verbatim>\<open>parts.join(sep)\<close> on strings.\<close>

fun join_with :: "string \<Rightarrow> string list \<Rightarrow> string" where
  "join_with sep [] = []"
| "join_with sep [x] = x"
| "join_with sep (x # y # ys) = x @ sep @ join_with sep (y # ys)"

text \<open>
  \<^verbatim>\<open>String(v)\<close>.  A finite number prints as the environment prints it, a zero of
  either sign as \<^verbatim>\<open>0\<close>.  An array prints its elements joined by commas, \<^verbatim>\<open>null\<close>
  elements as nothing; an object prints as \<^verbatim>\<open>[object Object]\<close>.  (An object that
  holds a key \<^verbatim>\<open>toString\<close> of its own is printed the same way here, where
  \<^verbatim>\<open>String\<close> throws a \<^verbatim>\<open>TypeError\<close>: for such a value the model has a text, and
  a flyer, where the code has none.)
\<close>

fun js_String :: "(rat \<Rightarrow> string) \<Rightarrow> json \<Rightarrow> string" where
  "js_String nt JNull = ''null''"
| "js_String nt (JBool b) = (if b then ''true'' else ''false'')"
| "js_String nt (JNum n) =
     (case n of
        Fin q \<Rightarrow> nt q
      | NegZero \<Rightarrow> ''0''
      | PosInf \<Rightarrow> ''Infinity''
      | NegInf \<Rightarrow> ''-Infinity'')"
| "js_String nt (JStr s) = s"
| "js_String nt (JArr xs) =
     join_with '','' (map (\<lambda>x. if x = JNull then [] else js_String nt x) xs)"
| "js_String nt (JObj kvs) = ''[object Object]''"

text \<open>\<^verbatim>\<open>String(v ?? "")\<close>.\<close>

definition str_nullish :: "env \<Rightarrow> json option \<Rightarrow> string" where
  "str_nullish e v =
     (case v of None \<Rightarrow> [] | Some x \<Rightarrow> if x = JNull then [] else js_String (num_text e) x)"

text \<open>
  \<^verbatim>\<open>[a, b, c].filter(Boolean).join(sep)\<close>: the truthy elements, each printed as
  \<^verbatim>\<open>join\<close> prints it.
\<close>

definition join_truthy :: "env \<Rightarrow> string \<Rightarrow> json option list \<Rightarrow> string" where
  "join_truthy e sep xs = join_with sep (map (str_nullish e) (filter truthy xs))"

text \<open>
  The white space and line terminators \<^verbatim>\<open>trim()\<close> removes, in UTF-8: TAB, LF, VT, FF,
  CR, SP, U+00A0, U+1680, U+2000 to U+200A, U+2028, U+2029, U+202F, U+205F, U+3000,
  U+FEFF.
\<close>

definition js_whitespace :: "string list" where
  "js_whitespace =
     [[CHR 0x09], [CHR 0x0A], [CHR 0x0B], [CHR 0x0C], [CHR 0x0D], [CHR 0x20],
      [CHR 0xC2, CHR 0xA0],
      [CHR 0xE1, CHR 0x9A, CHR 0x80],
      [CHR 0xE2, CHR 0x80, CHR 0x80], [CHR 0xE2, CHR 0x80, CHR 0x81],
      [CHR 0xE2, CHR 0x80, CHR 0x82], [CHR 0xE2, CHR 0x80, CHR 0x83],
      [CHR 0xE2, CHR 0x80, CHR 0x84], [CHR 0xE2, CHR 0x80, CHR 0x85],
      [CHR 0xE2, CHR 0x80, CHR 0x86], [CHR 0xE2, CHR 0x80, CHR 0x87],
      [CHR 0xE2, CHR 0x80, CHR 0x88], [CHR 0xE2, CHR 0x80, CHR 0x89],
      [CHR 0xE2, CHR 0x80, CHR 0x8A],
      [CHR 0xE2, CHR 0x80, CHR 0xA8], [CHR 0xE2, CHR 0x80, CHR 0xA9],
      [CHR 0xE2, CHR 0x80, CHR 0xAF],
      [CHR 0xE2, CHR 0x81, CHR 0x9F],
      [CHR 0xE3, CHR 0x80, CHR 0x80],
      [CHR 0xEF, CHR 0xBB, CHR 0xBF]]"

function strip_leading :: "string list \<Rightarrow> string \<Rightarrow> string" where
  "strip_leading ws s =
     (case find (\<lambda>w. w \<noteq> [] \<and> prefix w s) ws of
        None \<Rightarrow> s
      | Some w \<Rightarrow> strip_leading ws (drop (length w) s))"
  by pat_completeness auto
termination
  by (relation "measure (\<lambda>(ws, s). length s)") (auto simp: find_Some_iff prefix_def)

definition js_trim :: "string \<Rightarrow> string" where
  "js_trim s =
     rev (strip_leading (map rev js_whitespace) (rev (strip_leading js_whitespace s)))"

definition is_digit :: "char \<Rightarrow> bool" where
  "is_digit c = (48 \<le> (of_char c :: nat) \<and> (of_char c :: nat) \<le> 57)"

text \<open>
  \<^verbatim>\<open>toLowerCase()\<close> on the ASCII letters; other bytes are kept.  That is all the
  comparison of an extension with \<^verbatim>\<open>.png\<close> and \<^verbatim>\<open>.webp\<close> can see.
\<close>

definition lower_char :: "char \<Rightarrow> char" where
  "lower_char c =
     (case map_of (zip ''ABCDEFGHIJKLMNOPQRSTUVWXYZ'' ''abcdefghijklmnopqrstuvwxyz'') c of
        None \<Rightarrow> c
      | Some l \<Rightarrow> l)"

definition toLowerCase :: "string \<Rightarrow> string" where
  "toLowerCase s = map lower_char s"

text \<open>\<^verbatim>\<open>s.replaceAll(c, r)\<close> for a pattern of one character.\<close>

definition replaceAll :: "char \<Rightarrow> string \<Rightarrow> string \<Rightarrow> string" where
  "replaceAll c r s = concat (map (\<lambda>x. if x = c then r else [x]) s)"

section \<open>Numbers and their formatting\<close>

text \<open>
  \<^verbatim>\<open>Number(t)\<close> for the strings the formatters pass: \<open>t\<close> holds digits and dots only.
  The empty string is 0; digits, digits with one dot, or one dot with digits after it
  are a decimal numeral; anything else is \<^verbatim>\<open>NaN\<close>.  \<open>Finite v\<close> is the double nearest
  to the numeral's value \<open>v\<close>; a value at or above \<open>2^1024 - 2^970\<close> rounds to
  \<^verbatim>\<open>Infinity\<close>.
\<close>

datatype jsnum = NaN | Infinity | Finite rat

definition digits_value :: "string \<Rightarrow> nat" where
  "digits_value ds = foldl (\<lambda>a c. 10 * a + ((of_char c :: nat) - 48)) 0 ds"

definition to_double :: "rat \<Rightarrow> jsnum" where
  "to_double v = (if 2 ^ 1024 - 2 ^ 970 \<le> v then Infinity else Finite v)"

definition js_Number :: "string \<Rightarrow> jsnum" where
  "js_Number t =
     (let ip = takeWhile is_digit t; rest = dropWhile is_digit t in
      if t = [] then Finite 0
      else case rest of
             [] \<Rightarrow> to_double (of_nat (digits_value ip))
           | c # fp \<Rightarrow>
               if c = CHR ''.'' \<and> list_all is_digit fp \<and> (ip \<noteq> [] \<or> fp \<noteq> [])
               then to_double (of_nat (digits_value ip)
                               + of_nat (digits_value fp) / 10 ^ length fp)
               else NaN)"

text \<open>\<^verbatim>\<open>s.replace(/[^\d.]/g, "")\<close>.\<close>

definition digits_and_dots :: "string \<Rightarrow> string" where
  "digits_and_dots s = filter (\<lambda>c. is_digit c \<or> c = CHR ''.'') s"

text \<open>
  The integer \<^verbatim>\<open>Intl.NumberFormat("en-US", {maximumFractionDigits: 0})\<close> prints for
  the double nearest to \<open>v\<close>.  A natural number up to \<open>2^53\<close> is a double and is
  printed as it is; for every other value the rounding to a double and to an integer is
  the environment's.  The digits are grouped by three with commas, and the currency
  style puts a dollar sign in front (on a runtime that accepts
  \<^verbatim>\<open>maximumFractionDigits: 0\<close> for a currency, as ECMAScript 2023 does).
\<close>

definition intl_integer :: "env \<Rightarrow> rat \<Rightarrow> nat" where
  "intl_integer e v =
     (if v = of_nat (nat \<lfloor>v\<rfloor>) \<and> v \<le> 2 ^ 53 then nat \<lfloor>v\<rfloor> else intl_inexact e v)"

definition digit_char :: "nat \<Rightarrow> char" where
  "digit_char d = ''0123456789'' ! (d mod 10)"

function decimal :: "nat \<Rightarrow> string" where
  "decimal n =
     (if n < 10 then [digit_char n]
      else decimal (n div 10) @ [digit_char (n mod 10)])"
  by pat_completeness auto
termination
  by (relation "measure id") auto

text \<open>Grouping by three from the right, on the reversed digits.\<close>

fun group_rev :: "string \<Rightarrow> string" where
  "group_rev (a # b # c # d # r) = a # b # c # CHR '','' # group_rev (d # r)"
| "group_rev s = s"

definition group3 :: "string \<Rightarrow> string" where
  "group3 ds = rev (group_rev (rev ds))"

definition intl_decimal :: "env \<Rightarrow> rat \<Rightarrow> string" where
  "intl_decimal e v = group3 (decimal (intl_integer e v))"

definition intl_currency :: "env \<Rightarrow> rat \<Rightarrow> string" where
  "intl_currency e v = CHR ''$'' # group3 (decimal (intl_integer e v))"

definition fmtCurrency :: "env \<Rightarrow> json option \<Rightarrow> string" where
  "fmtCurrency e v =
     (let s = js_trim (str_nullish e v) in
      if s = [] then []
      else if CHR ''$'' \<in> set s \<or> CHR '','' \<in> set s then s
      else case js_Number (digits_and_dots s) of
             Finite n \<Rightarrow> intl_currency e n
           | _ \<Rightarrow> s)"

definition fmtNumber :: "env \<Rightarrow> json option \<Rightarrow> string" where
  "fmtNumber e v =
     (let s = js_trim (str_nullish e v) in
      if s = [] then []
      else if CHR '','' \<in> set s then s
      else case js_Number (digits_and_dots s) of
             Finite n \<Rightarrow> intl_decimal e n
           | _ \<Rightarrow> s)"

section \<open>HTML escaping and image inlining\<close>

text \<open>
  \<^verbatim>\<open>escapeHtml\<close>: five \<^verbatim>\<open>replaceAll\<close> calls in the source's order, the ampersand
  first.
\<close>

definition escapeHtml :: "env \<Rightarrow> json option \<Rightarrow> string" where
  "escapeHtml e str =
     replaceAll (CHR 0x27) ''&#039;''
       (replaceAll (CHR 0x22) ''&quot;''
          (replaceAll CHR ''>'' ''&gt;''
             (replaceAll CHR ''<'' ''&lt;''
                (replaceAll CHR ''&'' ''&amp;'' (str_nullish e str)))))"

text \<open>
  \<^verbatim>\<open>path.join(dir, s)\<close> on POSIX: the two parts joined by a slash and normalised.
  Empty and \<^verbatim>\<open>.\<close> segments are dropped, \<^verbatim>\<open>..\<close> removes the segment before it
  (at the root of an absolute path it is dropped; at the start of a relative path it is
  kept), a trailing slash is kept.
\<close>

fun split_slash :: "string \<Rightarrow> string list" where
  "split_slash [] = [[]]"
| "split_slash (c # cs) =
     (if c = CHR ''/'' then [] # split_slash cs
      else (case split_slash cs of [] \<Rightarrow> [[c]] | seg # segs \<Rightarrow> (c # seg) # segs))"

text \<open>The segments kept so far are held last first.\<close>

fun normalize_segs :: "bool \<Rightarrow> string list \<Rightarrow> string list \<Rightarrow> string list" where
  "normalize_segs absolute kept [] = rev kept"
| "normalize_segs absolute kept (seg # segs) =
     (if seg = [] \<or> seg = ''.'' then normalize_segs absolute kept segs
      else if seg = ''..'' then
        (case kept of
           [] \<Rightarrow> normalize_segs absolute (if absolute then [] else [''..'']) segs
         | k # ks \<Rightarrow>
             if k = ''..'' then normalize_segs absolute (''..'' # kept) segs
             else normalize_segs absolute ks segs)
      else normalize_segs absolute (seg # kept) segs)"

definition path_normalize :: "string \<Rightarrow> string" where
  "path_normalize p =
     (if p = [] then ''.''
      else
        (let absolute = (hd p = CHR ''/'');
             trailing = (last p = CHR ''/'');
             body = join_with ''/'' (normalize_segs absolute [] (split_slash p))
         in if body = [] then (if absolute then ''/'' else if trailing then ''./'' else ''.'')
            else (if absolute then ''/'' else []) @ body @ (if trailing then ''/'' else [])))"

definition path_join :: "string \<Rightarrow> string \<Rightarrow> string" where
  "path_join dir s =
     (if dir = [] then (if s = [] then ''.'' else path_normalize s)
      else if s = [] then path_normalize dir
      else path_normalize (dir @ ''/'' @ s))"

text \<open>
  \<^verbatim>\<open>path.extname\<close>: in the last segment of the path (trailing slashes aside), the
  text from the last dot on; nothing when there is no dot, when nothing stands before
  the last dot, or when the segment is \<^verbatim>\<open>..\<close>.
\<close>

definition basename :: "string \<Rightarrow> string" where
  "basename p =
     rev (takeWhile (\<lambda>c. c \<noteq> CHR ''/'') (dropWhile (\<lambda>c. c = CHR ''/'') (rev p)))"

definition extname :: "string \<Rightarrow> string" where
  "extname p =
     (let b = basename p;
          after = takeWhile (\<lambda>c. c \<noteq> CHR ''.'') (rev b);
          upto = dropWhile (\<lambda>c. c \<noteq> CHR ''.'') (rev b)
      in if upto = [] \<or> tl upto = [] \<or> b = ''..'' then []
         else CHR ''.'' # rev after)"

text \<open>\<^verbatim>\<open>Buffer.toString("base64")\<close>: three bytes give four characters, with padding.\<close>

definition b64_char :: "nat \<Rightarrow> char" where
  "b64_char i =
     ''ABCDEFGHIJKLMNOPQRSTUVWXYZabcdefghijklmnopqrstuvwxyz0123456789+/'' ! (i mod 64)"

fun base64 :: "string \<Rightarrow> string" where
  "base64 [] = []"
| "base64 [a] =
     (let n = (of_char a :: nat) * 65536 in
      [b64_char (n div 262144), b64_char (n div 4096), CHR ''='', CHR ''=''])"
| "base64 [a, b] =
     (let n = (of_char a :: nat) * 65536 + (of_char b :: nat) * 256 in
      [b64_char (n div 262144), b64_char (n div 4096), b64_char (n div 64), CHR ''=''])"
| "base64 (a # b # c # bytes) =
     (let n = (of_char a :: nat) * 65536 + (of_char b :: nat) * 256 + (of_char c :: nat) in
      [b64_char (n div 262144), b64_char (n div 4096), b64_char (n div 64), b64_char n]
        @ base64 bytes)"

definition mime_of_ext :: "string \<Rightarrow> string" where
  "mime_of_ext ext =
     (if ext = ''.png'' then ''image/png''
      else if ext = ''.webp'' then ''image/webp''
      else ''image/jpeg'')"

text \<open>
  \<^verbatim>\<open>imageUrlToDataUri\<close>.  \<^verbatim>\<open>existsSync\<close> is true of a directory as well, and then
  \<^verbatim>\<open>readFileSync\<close> throws into the \<^verbatim>\<open>catch\<close>.
\<close>

definition imageUrlToDataUri :: "env \<Rightarrow> json option \<Rightarrow> string option" where
  "imageUrlToDataUri e imageUrl =
     (case imageUrl of
        None \<Rightarrow> None
      | Some u \<Rightarrow>
          if \<not> truthy imageUrl then None
          else
            (let s = js_String (num_text e) u in
             if \<not> prefix ''/uploads/'' s then None
             else
               (let filePath = path_join (dirname e) s in
                case fs e filePath of
                  None \<Rightarrow> None
                | Some NotAFile \<Rightarrow> None
                | Some (FileBytes bytes) \<Rightarrow>
                    Some (''data:'' @ mime_of_ext (toLowerCase (extname filePath))
                          @ '';base64,'' @ base64 bytes))))"

section \<open>The flyer template\<close>

text \<open>
  The template literal of \<^verbatim>\<open>buildPdfHtml\<close> is a row of pieces: its literal text
  (\<open>Lit\<close>) and the values of its \<^verbatim>\<open>${...}\<close> substitutions (\<open>Sub\<close>).  A
  substitution that is itself a conditional template contributes its own pieces or
  none.  \<open>tpl_00\<close> to \<open>tpl_19\<close> are the twenty literal stretches of the outer
  template, in order.
\<close>

datatype piece = Lit string | Sub string

fun piece_text :: "piece \<Rightarrow> string" where
  "piece_text (Lit s) = s"
| "piece_text (Sub s) = s"

definition tpl_00 :: string where
  \<open>tpl_00 = ''
<!doctype html>
<html>
<head>
  <meta charset="utf-8" />
  <title>Listing PDF</title>
  <style>
    body { font-family: Arial, sans-serif; margin: 40px; color: #111; }
    :root { --accent: #111; }

    .topbar { display:flex; justify-content: space-between; align-items:flex-start; gap:18px; }
    .left { flex: 1; }
    .right { width: 260px; text-align: right; }

    .title { font-size: 22px; font-weight: 800; margin: 0; letter-spacing: .2px; }
    .subtitle { margin: 6px 0 0 0; color: #444; font-size: 12px; line-height: 1.35; }

    .badge { display:inline-block; margin-top: 10px; font-size: 11px; padding: 6px 10px; border: 1px solid #ddd; border-radius: 999px; color: #111; background: #fff; }

    .presented { margin-top: 12px; font-size: 11px; color: #666; }
    .presented b { color: #111; }

    .logoBox { display:flex; justify-content:flex-end; margin-bottom: 10px; }
    .logoBox img { max-width: 170px; max-height: 70px; object-fit: contain; }

    .agentCard { border: 1px solid #eee; border-radius: 14px; padding: 12px; text-align: left; background: #fff; }
    .agentName { font-weight: 800; font-size: 13px; margin: 0; color: #111; }
    .agentLine { font-size: 11px; color:#444; margin: 4px 0; }

    .hero { margin-top: 18px; border: 1px solid #eee; border-radius: 16px; overflow: hidden; }
    .hero img { width: 100%; height: 280px; object-fit: cover; display:block; }

    .grid { display:grid; grid-template-columns: 1fr 1fr; gap: 14px; margin-top: 16px; }
    .card { border: 1px solid #eee; border-radius: 14px; padding: 14px; background:#fff; }
    .k { color: #666; font-size: 11px; text-transform: uppercase; letter-spacing: .04em; }
    .v { font-size: 14px; font-weight: 700; margin-top: 4px; }
    .priceBig { font-size: 18px; font-weight: 900; color: var(--accent); }

    .desc { margin-top: 16px; line-height: 1.5; white-space: pre-wrap; font-size: 12.5px; }

    .footerBar { margin-top: 20px; border-top: 1px solid #eee; padding-top: 12px; display:flex; justify-content: space-between; align-items: center; gap: 14px; font-size: 10.5px; color:#666; }
    .footerLeft { display:flex; align-items:center; gap:10px; flex-wrap:wrap; }
    .footerDot { width: 4px; height: 4px; border-radius: 999px; background: #bbb; display:inline-block; }
    .footerRight { text-align:right; }
    .smallCaps { text-transform: uppercase; letter-spacing: .08em; font-size: 10px; color:#777; }
  </style>
</head>
<body>

  <div class="topbar">
    <div class="left">
      <p class="title">''\<close>

definition tpl_01 :: string where
  \<open>tpl_01 = ''</p>
      <p class="subtitle">''\<close>

definition tpl_02 :: string where
  \<open>tpl_02 = ''</p>
      <div class="badge">''\<close>

definition tpl_03 :: string where
  \<open>tpl_03 = ''</div>
      <div class="presented">Presented by <b>''\<close>

definition tpl_04 :: string where
  \<open>tpl_04 = ''</b>''\<close>

definition tpl_05 :: string where
  \<open>tpl_05 = ''</div>
    </div>

    <div class="right">
      ''\<close>

definition tpl_06 :: string where
  \<open>tpl_06 = ''
      <div class="agentCard">
        ''\<close>

definition tpl_07 :: string where
  \<open>tpl_07 = ''
        ''\<close>

definition tpl_08 :: string where
  \<open>tpl_08 = ''
        ''\<close>

definition tpl_09 :: string where
  \<open>tpl_09 = ''
        ''\<close>

definition tpl_10 :: string where
  \<open>tpl_10 = ''
      </div>
    </div>
  </div>

  ''\<close>

definition tpl_11 :: string where
  \<open>tpl_11 = ''

  <div class="grid">
    <div class="card">
      <div class="k">Price</div>
      <div class="v priceBig">''\<close>

definition tpl_12 :: string where
  \<open>tpl_12 = ''</div>
    </div>
    <div class="card">
      <div class="k">Beds / Baths / Sqft</div>
      <div class="v">''\<close>

definition tpl_13 :: string where
  \<open>tpl_13 = ''</div>
    </div>
  </div>

  ''\<close>

definition tpl_14 :: string where
  \<open>tpl_14 = ''

  <div class="card desc">''\<close>

definition tpl_15 :: string where
  \<open>tpl_15 = ''</div>

  <div class="footerBar">
    <div class="footerLeft">
      <span class="smallCaps">Listing Flyer</span>
      <span class="footerDot"></span>
      <span>''\<close>

definition tpl_16 :: string where
  \<open>tpl_16 = ''</span>
      ''\<close>

definition tpl_17 :: string where
  \<open>tpl_17 = ''
      ''\<close>

definition tpl_18 :: string where
  \<open>tpl_18 = ''
    </div>
    <div class="footerRight">Generated ''\<close>

definition tpl_19 :: string where
  \<open>tpl_19 = ''</div>
  </div>

</body>
</html>
''\<close>

text \<open>The dash shown when the agent has no name, and the bullet separator.\<close>

definition em_dash :: string where
  "em_dash = [CHR 0xE2, CHR 0x80, CHR 0x94]"

definition bullet_sep :: string where
  "bullet_sep = [CHR 0x20, CHR 0xE2, CHR 0x80, CHR 0xA2, CHR 0x20]"

text \<open>\<^verbatim>\<open>v ? `opening${escapeHtml(v)}closing` : ""\<close>.\<close>

definition escaped_block :: "env \<Rightarrow> string \<Rightarrow> json option \<Rightarrow> string \<Rightarrow> piece list" where
  "escaped_block e opening v closing =
     (if truthy v then [Lit opening, Sub (escapeHtml e v), Lit closing] else [])"

text \<open>\<^verbatim>\<open>uri ? `opening${uri}closing` : ""\<close>; a data URI is never the empty string.\<close>

definition image_block :: "string \<Rightarrow> string option \<Rightarrow> string \<Rightarrow> piece list" where
  "image_block opening uri closing =
     (case uri of None \<Rightarrow> [] | Some u \<Rightarrow> [Lit opening, Sub u, Lit closing])"

definition pdf_pieces :: "env \<Rightarrow> json \<Rightarrow> piece list" where
  \<open>pdf_pieces e listing =
     (let agent = or_default (get_prop listing ''agent'') (JObj []);
          propertyImageDataUri = imageUrlToDataUri e (get_prop listing ''imageUrl'');
          agentLogoDataUri = imageUrlToDataUri e (get_prop agent ''logoUrl'');
          priceFmt = fmtCurrency e (get_prop listing ''price'');
          sqftFmt = fmtNumber e (get_prop listing ''sqft'');
          presentedBy =
            (if truthy (get_prop agent ''name'') then escapeHtml e (get_prop agent ''name'')
             else em_dash);
          brokerageSuffix =
            (if truthy (get_prop agent ''brokerage'')
             then bullet_sep @ escapeHtml e (get_prop agent ''brokerage'')
             else [])
      in
        [Lit tpl_00,
         Sub (escapeHtml e (js_or (get_prop listing ''title'') (Some (JStr ''Property Listing'')))),
         Lit tpl_01,
         Sub (escapeHtml e (Some (JStr (join_truthy e '', ''
                [get_prop listing ''address'', get_prop listing ''city'',
                 get_prop listing ''state''])))),
         Lit tpl_02,
         Sub (escapeHtml e (js_or (get_prop listing ''tone'') (Some (JStr ''MLS'')))),
         Lit tpl_03,
         Sub presentedBy,
         Lit tpl_04,
         Sub brokerageSuffix,
         Lit tpl_05]
        @ image_block ''<div class="logoBox"><img src="'' agentLogoDataUri ''" /></div>''
        @ [Lit tpl_06]
        @ escaped_block e ''<div class="agentName">'' (get_prop agent ''name'') ''</div>''
        @ [Lit tpl_07]
        @ escaped_block e ''<div class="agentLine">'' (get_prop agent ''phone'') ''</div>''
        @ [Lit tpl_08]
        @ escaped_block e ''<div class="agentLine">'' (get_prop agent ''email'') ''</div>''
        @ [Lit tpl_09]
        @ escaped_block e ''<div class="agentLine">'' (get_prop agent ''brokerage'') ''</div>''
        @ [Lit tpl_10]
        @ image_block ''<div class="hero"><img src="'' propertyImageDataUri ''" /></div>''
        @ [Lit tpl_11,
           Sub (escapeHtml e (js_or (Some (JStr priceFmt))
                  (js_or (get_prop listing ''price'') (Some (JStr []))))),
           Lit tpl_12,
           Sub (escapeHtml e (Some (JStr (join_truthy e bullet_sep
                  [get_prop listing ''beds'', get_prop listing ''baths'',
                   js_or (Some (JStr sqftFmt)) (get_prop listing ''sqft'')])))),
           Lit tpl_13]
        @ escaped_block e
            ''
    <div class="card" style="margin-top:14px;">
      <div class="k">Year Built</div>
      <div class="v">''
            (get_prop listing ''yearBuilt'')
            ''</div>
    </div>
  ''
        @ [Lit tpl_14,
           Sub (escapeHtml e (js_or (get_prop listing ''description'') (Some (JStr [])))),
           Lit tpl_15,
           Sub (escapeHtml e (js_or (get_prop agent ''name'') (Some (JStr [])))),
           Lit tpl_16]
        @ escaped_block e ''<span class="footerDot"></span><span>'' (get_prop agent ''phone'')
            ''</span>''
        @ [Lit tpl_17]
        @ escaped_block e ''<span class="footerDot"></span><span>'' (get_prop agent ''email'')
            ''</span>''
        @ [Lit tpl_18,
           Sub (escapeHtml e (Some (JStr (now_text e)))),
           Lit tpl_19])\<close>

text \<open>
  \<^verbatim>\<open>buildPdfHtml\<close>: the pieces put together and trimmed.  Its callers pass
  \<^verbatim>\<open>req.body || {}\<close> or a stored listing that was found by its id, never
  \<^verbatim>\<open>null\<close>, on which reading \<^verbatim>\<open>listing.agent\<close> would throw.
\<close>

definition buildPdfHtml :: "env \<Rightarrow> json \<Rightarrow> exn + string" where
  "buildPdfHtml e listing =
     (if listing = JNull then Inl TypeError
      else Inr (js_trim (concat (map piece_text (pdf_pieces e listing)))))"

section \<open>The listings file\<close>

text \<open>
  \<^verbatim>\<open>data/listings.json\<close> is modelled by what reading it gives: the file is missing,
  it exists and \<^verbatim>\<open>readFileSync\<close> throws on it, its text is rejected by
  \<^verbatim>\<open>JSON.parse\<close>, or its text parses to a JSON value.  Beside it stands whether the
  calls that write (\<^verbatim>\<open>mkdirSync\<close>, \<^verbatim>\<open>writeFileSync\<close>) succeed or throw.  A write
  that succeeds leaves a file whose text parses to \<open>stringify_parse\<close> of what was
  written; a write that throws leaves the file as it was.
\<close>

datatype listings_file = Missing | Unreadable | Corrupt | Holds json

record disk =
  data_file :: listings_file
  writable :: bool

text \<open>
  \<^verbatim>\<open>ensureDataFile\<close> writes only when the file is missing, and throws when it cannot.
\<close>

definition ensureDataFile :: "disk \<Rightarrow> exn + disk" where
  "ensureDataFile d =
     (if data_file d = Missing
      then (if writable d then Inr (d\<lparr>data_file := Holds (stringify_parse (JArr []))\<rparr>)
            else Inl WriteError)
      else Inr d)"

text \<open>The body of the \<^verbatim>\<open>try\<close> in \<^verbatim>\<open>readListings\<close>: read the text, parse it.\<close>

definition read_and_parse :: "disk \<Rightarrow> exn + json" where
  "read_and_parse d =
     (case data_file d of
        Missing \<Rightarrow> Inl ReadError
      | Unreadable \<Rightarrow> Inl ReadError
      | Corrupt \<Rightarrow> Inl SyntaxError
      | Holds v \<Rightarrow> Inr v)"

text \<open>
  \<^verbatim>\<open>readListings\<close>.  The call of \<^verbatim>\<open>ensureDataFile\<close> stands before the \<^verbatim>\<open>try\<close>, so
  what it throws leaves \<^verbatim>\<open>readListings\<close>; what the \<^verbatim>\<open>try\<close> body throws is caught
  and gives the empty array.
\<close>

definition readListings :: "disk \<Rightarrow> exn + disk \<times> json list" where
  "readListings d =
     (case ensureDataFile d of
        Inl err \<Rightarrow> Inl err
      | Inr d1 \<Rightarrow>
          Inr (d1, case read_and_parse d1 of
                     Inl err \<Rightarrow> []
                   | Inr parsed \<Rightarrow> (case parsed of JArr xs \<Rightarrow> xs | _ \<Rightarrow> [])))"

definition writeListings :: "json list \<Rightarrow> disk \<Rightarrow> exn + disk" where
  "writeListings listings d =
     (case ensureDataFile d of
        Inl err \<Rightarrow> Inl err
      | Inr d1 \<Rightarrow>
          if writable d1 then Inr (d1\<lparr>data_file := Holds (stringify_parse (JArr listings))\<rparr>)
          else Inl WriteError)"

section \<open>The listing routes\<close>

text \<open>
  A response is its status code and the JSON body as the client parses it:
  \<^verbatim>\<open>res.json(body)\<close> sends \<^verbatim>\<open>JSON.stringify(body)\<close>.  A handler that throws
  without catching is answered by the framework's error handler, with status 500 and a
  page that is not JSON.
\<close>

datatype response = Resp nat json | Unhandled exn

definition res_json :: "nat \<Rightarrow> json \<Rightarrow> response" where
  "res_json status body = Resp status (stringify_parse body)"

definition ok_body :: "(string \<times> json) list \<Rightarrow> json" where
  "ok_body extra = JObj ((''ok'', JBool True) # extra)"

definition error_body :: "string \<Rightarrow> json" where
  "error_body msg = JObj [(''ok'', JBool False), (''error'', JStr msg)]"

text \<open>
  \<^verbatim>\<open>listings.find((l) => l.id === id)\<close> with \<open>id\<close> the route parameter, a string.
  Reading \<^verbatim>\<open>l.id\<close> of a \<^verbatim>\<open>null\<close> element throws; \<^verbatim>\<open>===\<close> holds only for a string
  equal to \<open>id\<close>; the scan stops at the first match.
\<close>

fun find_by_id :: "json list \<Rightarrow> string \<Rightarrow> exn + json option" where
  "find_by_id [] i = Inr None"
| "find_by_id (l # ls) i =
     (if l = JNull then Inl TypeError
      else if get_prop l ''id'' = Some (JStr i) then Inr (Some l)
      else find_by_id ls i)"

text \<open>\<^verbatim>\<open>listings.filter((l) => l.id !== id)\<close>: every element is visited.\<close>

fun filter_by_id :: "json list \<Rightarrow> string \<Rightarrow> exn + json list" where
  "filter_by_id [] i = Inr []"
| "filter_by_id (l # ls) i =
     (if l = JNull then Inl TypeError
      else case filter_by_id ls i of
             Inl e \<Rightarrow> Inl e
           | Inr kept \<Rightarrow> Inr (if get_prop l ''id'' \<noteq> Some (JStr i) then l # kept else kept))"

text \<open>\<^verbatim>\<open>GET /api/listings\<close>.  The handler has no \<^verbatim>\<open>try\<close> of its own.\<close>

definition list_route :: "disk \<Rightarrow> disk \<times> response" where
  "list_route d =
     (case readListings d of
        Inl err \<Rightarrow> (d, Unhandled err)
      | Inr (d1, listings) \<Rightarrow> (d1, res_json 200 (ok_body [(''listings'', JArr listings)])))"

text \<open>\<^verbatim>\<open>GET /api/listings/:id\<close>.\<close>

definition get_route :: "disk \<Rightarrow> string \<Rightarrow> disk \<times> response" where
  "get_route d i =
     (case readListings d of
        Inl err \<Rightarrow> (d, res_json 500 (error_body ''Failed to load listing.''))
      | Inr (d1, listings) \<Rightarrow>
          (case find_by_id listings i of
             Inl err \<Rightarrow> (d1, res_json 500 (error_body ''Failed to load listing.''))
           | Inr None \<Rightarrow> (d1, res_json 404 (error_body ''Listing not found.''))
           | Inr (Some listing) \<Rightarrow> (d1, res_json 200 (ok_body [(''listing'', listing)]))))"

text \<open>
  \<^verbatim>\<open>POST /api/listings/save\<close>; \<open>body\<close> is \<^verbatim>\<open>req.body\<close>.  The check
  \<^verbatim>\<open>!listing?.id\<close> comes before the file is touched; \<^verbatim>\<open>unshift\<close> puts the body in
  front of what was read.
\<close>

definition save_route :: "disk \<Rightarrow> json option \<Rightarrow> disk \<times> response" where
  "save_route d body =
     (case body of
        None \<Rightarrow> (d, res_json 400 (error_body ''Listing with id is required.''))
      | Some listing \<Rightarrow>
          if \<not> truthy (opt_prop (Some listing) ''id'')
          then (d, res_json 400 (error_body ''Listing with id is required.''))
          else
            (case readListings d of
               Inl err \<Rightarrow> (d, res_json 500 (error_body ''Failed to save listing.''))
             | Inr (d1, listings) \<Rightarrow>
                 (case writeListings (listing # listings) d1 of
                    Inl err \<Rightarrow> (d1, res_json 500 (error_body ''Failed to save listing.''))
                  | Inr d2 \<Rightarrow> (d2, res_json 200 (ok_body [])))))"

text \<open>\<^verbatim>\<open>DELETE /api/listings/:id\<close>.\<close>

definition delete_route :: "disk \<Rightarrow> string \<Rightarrow> disk \<times> response" where
  "delete_route d i =
     (case readListings d of
        Inl err \<Rightarrow> (d, res_json 500 (error_body ''Failed to delete listing.''))
      | Inr (d1, listings) \<Rightarrow>
          (case filter_by_id listings i of
             Inl err \<Rightarrow> (d1, res_json 500 (error_body ''Failed to delete listing.''))
           | Inr filtered \<Rightarrow>
               (case writeListings filtered d1 of
                  Inl err \<Rightarrow> (d1, res_json 500 (error_body ''Failed to delete listing.''))
                | Inr d2 \<Rightarrow> (d2, res_json 200 (ok_body [])))))"

text \<open>
  \<^verbatim>\<open>POST /api/listings/generate\<close>.  The listing is built from the request body, the
  copywriter's title and description, a fresh id and the current time; it is sent back
  as JSON and not written to the file.
\<close>

definition generate_listing ::
  "string \<Rightarrow> string \<Rightarrow> string \<Rightarrow> string \<Rightarrow> json \<Rightarrow> json" where
  "generate_listing new_id created title description input =
     JObj
       [(''id'', JStr new_id),
        (''createdAt'', JStr created),
        (''tone'', or_default (get_prop input ''tone'') (JStr ''MLS (English)'')),
        (''title'', or_default (Some (JStr title)) (JStr ''Property Listing'')),
        (''description'', or_default (Some (JStr description)) (JStr [])),
        (''address'', or_default (get_prop input ''address'') (JStr [])),
        (''city'', or_default (get_prop input ''city'') (JStr [])),
        (''state'', or_default (get_prop input ''state'') (JStr [])),
        (''price'', or_default (get_prop input ''price'') (JStr [])),
        (''beds'', or_default (get_prop input ''beds'') (JStr [])),
        (''baths'', or_default (get_prop input ''baths'') (JStr [])),
        (''sqft'', or_default (get_prop input ''sqft'') (JStr [])),
        (''yearBuilt'', or_default (get_prop input ''yearBuilt'') (JStr [])),
        (''features'', or_default (get_prop input ''features'') (JStr [])),
        (''descriptionInput'', or_default (get_prop input ''descriptionInput'') (JStr [])),
        (''imageUrl'', or_default (get_prop input ''imageUrl'') (JStr [])),
        (''agent'',
           JObj
             [(''name'', or_default (opt_prop (get_prop input ''agent'') ''name'') (JStr [])),
              (''brokerage'',
                 or_default (opt_prop (get_prop input ''agent'') ''brokerage'') (JStr [])),
              (''phone'', or_default (opt_prop (get_prop input ''agent'') ''phone'') (JStr [])),
              (''email'', or_default (opt_prop (get_prop input ''agent'') ''email'') (JStr [])),
              (''logoUrl'',
                 or_default (opt_prop (get_prop input ''agent'') ''logoUrl'') (JStr []))])]"

definition generate_route ::
  "bool \<Rightarrow> exn + string \<times> string \<Rightarrow> string \<Rightarrow> string \<Rightarrow> json option \<Rightarrow> response" where
  "generate_route hasOpenAIKey generated new_id created body =
     (if \<not> hasOpenAIKey
      then res_json 503
             (JObj [(''error'', JStr ''AI generation is disabled (missing OPENAI_API_KEY).'')])
      else
        (let input = or_default body (JObj []) in
         case generated of
           Inl err \<Rightarrow> res_json 500 (error_body ''Failed to generate listing.'')
         | Inr (title, description) \<Rightarrow>
             res_json 200
               (ok_body [(''listing'', generate_listing new_id created title description input)])))"




text \<open>
  The records the file holds: the elements of the array its text parses to, and none
  when it is missing, unreadable, unparseable or not an array.  Then what it is for a
  record to have every field of the listing model present and not \<^verbatim>\<open>null\<close>.
\<close>

definition stored :: "disk \<Rightarrow> json list" where
  "stored d = (case data_file d of Holds v \<Rightarrow> (case v of JArr xs \<Rightarrow> xs | _ \<Rightarrow> []) | _ \<Rightarrow> [])"





section \<open>A sample environment\<close>

text \<open>
  An environment to evaluate the model in: the script lives in \<^verbatim>\<open>/srv/app\<close>, whose
  uploads directory holds one PNG file and one WebP file of three bytes each.
\<close>

definition sample_fs :: "string \<Rightarrow> fsnode option" where
  "sample_fs p =
     (if p = ''/srv/app/uploads/a.png'' then Some (FileBytes ''abc'')
      else if p = ''/srv/app/uploads/b.WEBP'' then Some (FileBytes ''xyz'')
      else if p = ''/srv/app/uploads'' \<or> p = ''/srv/app/uploads/'' then Some NotAFile
      else None)"

definition sample_env :: env where
  "sample_env =
     \<lparr>dirname = ''/srv/app'',
      fs = sample_fs,
      now_text = ''1/2/2026, 3:04:05 PM'',
      num_text = (\<lambda>n. decimal (nat \<lfloor>n\<rfloor>)),
      intl_inexact = (\<lambda>v. nat \<lfloor>v + 1 / 2\<rfloor>)\<rparr>"

text \<open>Two disks without a listings file: one that can be written, one that cannot.\<close>

definition fresh_disk :: disk where
  "fresh_disk = \<lparr>data_file = Missing, writable = True\<rparr>"

definition blocked_disk :: disk where
  "blocked_disk = \<lparr>data_file = Missing, writable = False\<rparr>"

section \<open>What the properties speak of\<close>

text \<open>The entity \<^verbatim>\<open>escapeHtml\<close> writes for a character, or the character itself.\<close>

definition html_entity :: "char \<Rightarrow> string" where
  "html_entity c =
     (if c = CHR ''&'' then ''&amp;''
      else if c = CHR ''<'' then ''&lt;''
      else if c = CHR ''>'' then ''&gt;''
      else if c = CHR 0x22 then ''&quot;''
      else if c = CHR 0x27 then ''&#039;''
      else [c])"

text \<open>
  A text is safe to stand in the document when it holds no angle bracket and no quote,
  and every ampersand in it starts one of the five entities.
\<close>

fun html_safe :: "string \<Rightarrow> bool" where
  "html_safe [] = True"
| "html_safe (c # cs) =
     (if c = CHR ''&''
      then (prefix ''amp;'' cs \<or> prefix ''lt;'' cs \<or> prefix ''gt;'' cs
            \<or> prefix ''quot;'' cs \<or> prefix ''#039;'' cs) \<and> html_safe cs
      else c \<noteq> CHR ''<'' \<and> c \<noteq> CHR ''>'' \<and> c \<noteq> CHR 0x22 \<and> c \<noteq> CHR 0x27 \<and> html_safe cs)"

definition sub_safe :: "piece \<Rightarrow> bool" where
  "sub_safe p = (case p of Lit s \<Rightarrow> True | Sub s \<Rightarrow> html_safe s)"

text \<open>
  No occurrence of the pattern \<open>pat\<close> starts inside the literal \<open>l\<close>, whatever text
  follows the literal: at every position, the rest of the literal and the pattern
  differ at some character both have.
\<close>

fun clear_of :: "string \<Rightarrow> string \<Rightarrow> bool" where
  "clear_of pat [] = True"
| "clear_of pat (x # xs) =
     (\<not> prefix (x # xs) pat \<and> \<not> prefix pat (x # xs) \<and> clear_of pat xs)"

definition piece_clear :: "string \<Rightarrow> piece \<Rightarrow> bool" where
  "piece_clear pat p = (case p of Lit l \<Rightarrow> clear_of pat l | Sub s \<Rightarrow> hd pat \<notin> set s)"

text \<open>
  The spec's words for the save check, read generously: the id is absent (an id of
  \<^verbatim>\<open>null\<close> counted as absent) or is the empty string.
\<close>

definition id_absent_or_empty :: "json option \<Rightarrow> bool" where
  "id_absent_or_empty body =
     (opt_prop body ''id'' = None \<or> opt_prop body ''id'' = Some JNull
      \<or> opt_prop body ''id'' = Some (JStr []))"

text \<open>
  A decimal numeral, said without reference to how \<^verbatim>\<open>Number\<close> scans: digits with at
  most one dot among them, and at least one digit.  Its value is its digits read as a
  natural number, divided by ten for each digit after the dot.
\<close>

definition decimal_numeral :: "string \<Rightarrow> bool" where
  "decimal_numeral t =
     (list_all (\<lambda>c. is_digit c \<or> c = CHR ''.'') t
      \<and> length (filter (\<lambda>c. c = CHR ''.'') t) \<le> 1
      \<and> filter is_digit t \<noteq> [])"

definition numeral_value :: "string \<Rightarrow> rat" where
  "numeral_value t =
     of_nat (digits_value (filter is_digit t))
       / 10 ^ length (filter is_digit (dropWhile (\<lambda>c. c \<noteq> CHR ''.'') t))"

text \<open>
  A value that \<^verbatim>\<open>JSON.stringify\<close> writes without loss: its numbers, at every depth,
  are finite and none is the negative zero.
\<close>

fun json_stable :: "json \<Rightarrow> bool" where
  "json_stable (JNum n) = (case n of Fin q \<Rightarrow> True | _ \<Rightarrow> False)"
| "json_stable (JArr xs) = list_all json_stable xs"
| "json_stable (JObj kvs) = list_all (\<lambda>(k, v). json_stable v) kvs"
| "json_stable v = True"



text \<open>
  The literal stretches of a row of pieces, and the literal texts of the flyer template:
  those of every flyer, and those that stand only around an inlined logo or an inlined
  property image.
\<close>

fun literals :: "piece list \<Rightarrow> string list" where
  "literals [] = []"
| "literals (Lit l # ps) = l # literals ps"
| "literals (Sub s # ps) = literals ps"

definition base_texts :: "string list" where
  \<open>base_texts =
     [tpl_00, tpl_01, tpl_02, tpl_03, tpl_04, tpl_05, tpl_06, tpl_07, tpl_08, tpl_09,
      tpl_10, tpl_11, tpl_12, tpl_13, tpl_14, tpl_15, tpl_16, tpl_17, tpl_18, tpl_19,
      ''<div class="agentName">'', ''<div class="agentLine">'', ''</div>'',
      ''
    <div class="card" style="margin-top:14px;">
      <div class="k">Year Built</div>
      <div class="v">'',
      ''</div>
    </div>
  '',
      ''<span class="footerDot"></span><span>'', ''</span>'']\<close>

definition logo_texts :: "string list" where
  \<open>logo_texts = [''<div class="logoBox"><img src="'', ''" /></div>'']\<close>

definition hero_texts :: "string list" where
  \<open>hero_texts = [''<div class="hero"><img src="'', ''" /></div>'']\<close>

section \<open>What JSON text carries\<close>

lemma stringify_parse_idem: "stringify_parse (stringify_parse v) = stringify_parse v"
  by (induction v rule: stringify_parse.induct) (auto split: jnum.splits)

lemma stringify_parse_stable: "json_stable v \<Longrightarrow> stringify_parse v = v"
proof (induction v rule: stringify_parse.induct)
  case (1 n)
  then show ?case by (cases n) simp_all
next
  case (2 xs)
  then show ?case by (simp add: list_all_iff map_idI)
next
  case (3 kvs)
  then have "\<And>kv. kv \<in> set kvs \<Longrightarrow> (case kv of (k, v) \<Rightarrow> (k, stringify_parse v)) = kv"
    by (auto simp: list_all_iff)
  then show ?case by (simp add: map_idI)
qed simp_all

lemma json_stable_stringify_parse: "json_stable (stringify_parse v)"
  by (induction v rule: stringify_parse.induct) (auto simp: list_all_iff split: jnum.splits)

lemma get_prop_stringify_parse:
  "get_prop (stringify_parse v) k = map_option stringify_parse (get_prop v k)"
  by (cases v) (simp_all add: map_of_map split: jnum.splits)

lemma stringify_parse_eq_JStr: "stringify_parse v = JStr s \<longleftrightarrow> v = JStr s"
  by (cases v) (auto split: jnum.splits)

lemma id_stringify_parse:
  "get_prop (stringify_parse v) ''id'' = Some (JStr i) \<longleftrightarrow> get_prop v ''id'' = Some (JStr i)"
  by (auto simp: get_prop_stringify_parse stringify_parse_eq_JStr)

lemma stringify_parse_bodies:
  "stringify_parse (error_body msg) = error_body msg"
  "stringify_parse (ok_body extra) = ok_body (map (\<lambda>(k, v). (k, stringify_parse v)) extra)"
  by (simp_all add: error_body_def ok_body_def)

lemma res_json_error: "res_json status (error_body msg) = Resp status (error_body msg)"
  by (simp add: res_json_def stringify_parse_bodies)

lemma res_json_ok: "res_json status (ok_body []) = Resp status (ok_body [])"
  by (simp add: res_json_def stringify_parse_bodies)

section \<open>Reading and writing the store\<close>

lemma stored_Holds: "stored (d\<lparr>data_file := Holds (JArr xs)\<rparr>) = xs"
  by (simp add: stored_def)

lemma stored_Missing: "data_file d = Missing \<Longrightarrow> stored d = []"
  by (simp add: stored_def)

lemma readListings_exists: "data_file d \<noteq> Missing \<Longrightarrow> readListings d = Inr (d, stored d)"
  by (cases "data_file d")
     (simp_all add: readListings_def ensureDataFile_def read_and_parse_def stored_def)

lemma readListings_created:
  "data_file d = Missing \<Longrightarrow> writable d \<Longrightarrow>
     readListings d = Inr (d\<lparr>data_file := Holds (JArr [])\<rparr>, [])"
  by (simp add: readListings_def ensureDataFile_def read_and_parse_def)

lemma readListings_blocked:
  "data_file d = Missing \<Longrightarrow> \<not> writable d \<Longrightarrow> readListings d = Inl WriteError"
  by (simp add: readListings_def ensureDataFile_def)

lemma writeListings_exists:
  "data_file d \<noteq> Missing \<Longrightarrow>
     writeListings xs d
       = (if writable d then Inr (d\<lparr>data_file := Holds (JArr (map stringify_parse xs))\<rparr>)
          else Inl WriteError)"
  by (simp add: writeListings_def ensureDataFile_def)

section \<open>Saving\<close>

lemma opt_prop_Some: "opt_prop (Some v) k = get_prop v k"
  by (cases v) simp_all

lemma falsy_id_iff:
  "\<not> truthy x \<longleftrightarrow>
     x = None \<or> x = Some JNull \<or> x = Some (JBool False) \<or> x = Some (JNum (Fin 0))
     \<or> x = Some (JNum NegZero) \<or> x = Some (JStr [])"
  by (cases x rule: truthy.cases) auto

lemma save_route_rejected:
  "\<not> truthy (opt_prop body ''id'') \<Longrightarrow>
     save_route d body = (d, Resp 400 (error_body ''Listing with id is required.''))"
  by (cases body) (simp_all add: save_route_def res_json_error)

lemma save_route_written:
  assumes "truthy (get_prop r ''id'')" and "writable d"
  shows "save_route d (Some r)
           = (d\<lparr>data_file := Holds (JArr (stringify_parse r # map stringify_parse (stored d)))\<rparr>,
              Resp 200 (ok_body []))"
proof (cases "data_file d = Missing")
  case True
  with assms show ?thesis
    by (simp add: save_route_def opt_prop_Some readListings_created writeListings_exists
          stored_Missing res_json_ok)
next
  case False
  with assms show ?thesis
    by (simp add: save_route_def opt_prop_Some readListings_exists writeListings_exists
          res_json_ok)
qed

lemma save_route_failed:
  assumes "truthy (get_prop r ''id'')" and "\<not> writable d"
  shows "save_route d (Some r) = (d, Resp 500 (error_body ''Failed to save listing.''))"
proof (cases "data_file d = Missing")
  case True
  with assms show ?thesis
    by (simp add: save_route_def opt_prop_Some readListings_blocked res_json_error)
next
  case False
  with assms show ?thesis
    by (simp add: save_route_def opt_prop_Some readListings_exists writeListings_exists
          res_json_error)
qed

section \<open>Reading the listings file\<close>

lemma readListings_unparsed:
  "data_file d = Unreadable \<or> data_file d = Corrupt \<Longrightarrow> readListings d = Inr (d, [])"
  by (auto simp add: readListings_exists stored_def)

lemma list_route_exists:
  "data_file d \<noteq> Missing \<Longrightarrow>
   list_route d = (d, Resp 200 (ok_body [(''listings'', JArr (map stringify_parse (stored d)))]))"
  by (simp add: list_route_def readListings_exists res_json_def stringify_parse_bodies)

lemma list_route_blocked:
  "data_file d = Missing \<Longrightarrow> \<not> writable d \<Longrightarrow> list_route d = (d, Unhandled WriteError)"
  by (simp add: list_route_def readListings_blocked)

text \<open>
  C4.  \<^verbatim>\<open>readListings\<close> first calls \<^verbatim>\<open>ensureDataFile\<close> and only then opens its \<^verbatim>\<open>try\<close>.
  A file that exists and cannot be read, or whose text is not JSON, is read as the empty
  list, and so is a missing file that can be created.  A missing file that cannot be
  created is another matter: the exception of \<^verbatim>\<open>ensureDataFile\<close> is raised outside the
  \<^verbatim>\<open>try\<close> and leaves \<^verbatim>\<open>readListings\<close>, and \<^verbatim>\<open>GET /api/listings\<close>, which catches
  nothing, does not answer with a list.
\<close>

theorem C4_readListings_throws_when_uncreatable:
  "(data_file d = Missing \<and> \<not> writable d
      \<longrightarrow> readListings d = Inl WriteError \<and> list_route d = (d, Unhandled WriteError))
   \<and> (data_file d = Missing \<and> writable d
        \<longrightarrow> readListings d = Inr (d\<lparr>data_file := Holds (JArr [])\<rparr>, []))
   \<and> (data_file d = Unreadable \<or> data_file d = Corrupt \<longrightarrow> readListings d = Inr (d, []))
   \<and> (data_file d = Holds (JArr xs) \<longrightarrow> readListings d = Inr (d, xs))"
  by (auto simp add: readListings_blocked list_route_blocked readListings_created
        readListings_exists stored_def)

theorem C4_readListings_witness:
  "readListings blocked_disk = Inl WriteError
   \<and> list_route blocked_disk = (blocked_disk, Unhandled WriteError)
   \<and> readListings fresh_disk = Inr (\<lparr>data_file = Holds (JArr []), writable = True\<rparr>, [])
   \<and> readListings \<lparr>data_file = Corrupt, writable = False\<rparr>
       = Inr (\<lparr>data_file = Corrupt, writable = False\<rparr>, [])
   \<and> readListings \<lparr>data_file = Unreadable, writable = True\<rparr>
       = Inr (\<lparr>data_file = Unreadable, writable = True\<rparr>, [])
   \<and> readListings \<lparr>data_file = Holds (JArr [JStr ''a'']), writable = False\<rparr>
       = Inr (\<lparr>data_file = Holds (JArr [JStr ''a'']), writable = False\<rparr>, [JStr ''a''])"
  using C4_readListings_throws_when_uncreatable [of blocked_disk "[]"]
        C4_readListings_throws_when_uncreatable [of fresh_disk "[]"]
        C4_readListings_throws_when_uncreatable [of "\<lparr>data_file = Corrupt, writable = False\<rparr>" "[]"]
        C4_readListings_throws_when_uncreatable [of "\<lparr>data_file = Unreadable, writable = True\<rparr>" "[]"]
        C4_readListings_throws_when_uncreatable
          [of "\<lparr>data_file = Holds (JArr [JStr ''a'']), writable = False\<rparr>" "[JStr ''a'']"]
  by (simp add: blocked_disk_def fresh_disk_def)

text \<open>
  C10.  Whatever a listings file that exists holds, \<^verbatim>\<open>readListings\<close> returns a list: the
  array itself when the content is a JSON array, and the empty list when it is any other
  JSON value, is not JSON, or cannot be read.  \<^verbatim>\<open>GET /api/listings\<close> then answers 200
  with that list.
\<close>

theorem C10_readListings_always_array:
  "(data_file d = Holds v
      \<longrightarrow> readListings d = Inr (d, case v of JArr xs \<Rightarrow> xs | _ \<Rightarrow> []))
   \<and> (data_file d = Holds v \<and> (\<forall>xs. v \<noteq> JArr xs) \<longrightarrow> readListings d = Inr (d, []))
   \<and> (data_file d \<noteq> Missing
        \<longrightarrow> (\<exists>xs. readListings d = Inr (d, xs)
                  \<and> list_route d
                      = (d, Resp 200 (ok_body [(''listings'', JArr (map stringify_parse xs))]))))"
  by (auto simp add: readListings_exists list_route_exists stored_def split: json.splits)

theorem C10_readListings_witness:
  "readListings \<lparr>data_file = Holds (JObj [(''a'', JNum (Fin 1))]), writable = False\<rparr>
     = Inr (\<lparr>data_file = Holds (JObj [(''a'', JNum (Fin 1))]), writable = False\<rparr>, [])
   \<and> list_route \<lparr>data_file = Holds (JObj [(''a'', JNum (Fin 1))]), writable = False\<rparr>
       = (\<lparr>data_file = Holds (JObj [(''a'', JNum (Fin 1))]), writable = False\<rparr>,
          Resp 200 (ok_body [(''listings'', JArr [])]))"
  using C10_readListings_always_array
          [of "\<lparr>data_file = Holds (JObj [(''a'', JNum (Fin 1))]), writable = False\<rparr>"
              "JObj [(''a'', JNum (Fin 1))]"]
  by auto

text \<open>
  C2, as the code has it.  The save route answers 400 exactly when the id of the body
  is falsy: the body or its id is absent, or the id is \<^verbatim>\<open>null\<close>, \<^verbatim>\<open>false\<close>, a zero
  of either sign or the empty string.  On that path the file is left as it was.  Every
  other id, a non-empty string among them, passes the check; when the file can be
  written the route then answers 200 and the body, as JSON carries it, is stored in
  front.
\<close>

theorem C2_save_rejects_falsy_id:
  "(snd (save_route d body) = Resp 400 (error_body ''Listing with id is required.'')
      \<longleftrightarrow> opt_prop body ''id'' = None \<or> opt_prop body ''id'' = Some JNull
          \<or> opt_prop body ''id'' = Some (JBool False)
          \<or> opt_prop body ''id'' = Some (JNum (Fin 0))
          \<or> opt_prop body ''id'' = Some (JNum NegZero)
          \<or> opt_prop body ''id'' = Some (JStr []))
   \<and> (snd (save_route d body) = Resp 400 (error_body ''Listing with id is required.'')
        \<longrightarrow> fst (save_route d body) = d)
   \<and> (body = Some r \<and> get_prop r ''id'' = Some (JStr i) \<and> i \<noteq> []
        \<longrightarrow> snd (save_route d body) \<noteq> Resp 400 (error_body ''Listing with id is required.'')
            \<and> (writable d
                 \<longrightarrow> snd (save_route d body) = Resp 200 (ok_body [])
                     \<and> stored (fst (save_route d body))
                         = stringify_parse r # map stringify_parse (stored d)))"
proof (cases "truthy (opt_prop body ''id'')")
  case True
  then obtain listing where body: "body = Some listing"
    by (cases body) auto
  from True have id: "truthy (get_prop listing ''id'')"
    by (simp add: body opt_prop_Some)
  have answered: "snd (save_route d body) \<noteq> Resp 400 (error_body ''Listing with id is required.'')"
    using save_route_written [OF id, of d] save_route_failed [OF id, of d]
    by (cases "writable d") (simp_all add: body error_body_def ok_body_def)
  have written: "writable d \<Longrightarrow>
      snd (save_route d body) = Resp 200 (ok_body [])
      \<and> stored (fst (save_route d body))
          = stringify_parse listing # map stringify_parse (stored d)"
    using save_route_written [OF id, of d] by (simp add: body stored_Holds)
  from True have "\<not> (opt_prop body ''id'' = None \<or> opt_prop body ''id'' = Some JNull
          \<or> opt_prop body ''id'' = Some (JBool False)
          \<or> opt_prop body ''id'' = Some (JNum (Fin 0))
          \<or> opt_prop body ''id'' = Some (JNum NegZero)
          \<or> opt_prop body ''id'' = Some (JStr []))"
    using falsy_id_iff [of "opt_prop body ''id''"] by blast
  with answered written show ?thesis
    using body by auto
next
  case False
  then have rejected:
    "save_route d body = (d, Resp 400 (error_body ''Listing with id is required.''))"
    by (rule save_route_rejected)
  from False have falsy: "opt_prop body ''id'' = None \<or> opt_prop body ''id'' = Some JNull
          \<or> opt_prop body ''id'' = Some (JBool False)
          \<or> opt_prop body ''id'' = Some (JNum (Fin 0))
          \<or> opt_prop body ''id'' = Some (JNum NegZero)
          \<or> opt_prop body ''id'' = Some (JStr [])"
    using falsy_id_iff [of "opt_prop body ''id''"] by blast
  have "\<not> (body = Some r \<and> get_prop r ''id'' = Some (JStr i) \<and> i \<noteq> [])"
  proof
    assume "body = Some r \<and> get_prop r ''id'' = Some (JStr i) \<and> i \<noteq> []"
    then have "truthy (opt_prop body ''id'')"
      by (simp add: opt_prop_Some)
    with False show False ..
  qed
  then have "body = Some r \<and> get_prop r ''id'' = Some (JStr i) \<and> i \<noteq> []
        \<longrightarrow> snd (save_route d body) \<noteq> Resp 400 (error_body ''Listing with id is required.'')
            \<and> (writable d
                 \<longrightarrow> snd (save_route d body) = Resp 200 (ok_body [])
                     \<and> stored (fst (save_route d body))
                         = stringify_parse r # map stringify_parse (stored d))"
    by blast
  moreover from rejected falsy
  have "snd (save_route d body) = Resp 400 (error_body ''Listing with id is required.'')
      \<longleftrightarrow> opt_prop body ''id'' = None \<or> opt_prop body ''id'' = Some JNull
          \<or> opt_prop body ''id'' = Some (JBool False)
          \<or> opt_prop body ''id'' = Some (JNum (Fin 0))
          \<or> opt_prop body ''id'' = Some (JNum NegZero)
          \<or> opt_prop body ''id'' = Some (JStr [])"
    by simp
  moreover from rejected have "fst (save_route d body) = d"
    by simp
  ultimately show ?thesis
    by blast
qed

theorem C2_save_witness:
  "snd (save_route \<lparr>data_file = Corrupt, writable = True\<rparr> (Some (JObj [(''title'', JStr ''t'')])))
     = Resp 400 (error_body ''Listing with id is required.'')
   \<and> fst (save_route \<lparr>data_file = Corrupt, writable = True\<rparr>
             (Some (JObj [(''title'', JStr ''t'')])))
       = \<lparr>data_file = Corrupt, writable = True\<rparr>
   \<and> snd (save_route fresh_disk (Some (JObj [(''id'', JStr ''abc123'')])))
       = Resp 200 (ok_body [])
   \<and> stored (fst (save_route fresh_disk (Some (JObj [(''id'', JStr ''abc123'')]))))
       = [JObj [(''id'', JStr ''abc123'')]]"
  using C2_save_rejects_falsy_id
          [of "\<lparr>data_file = Corrupt, writable = True\<rparr>"
              "Some (JObj [(''title'', JStr ''t'')])" JNull "''x''"]
        C2_save_rejects_falsy_id
          [of fresh_disk "Some (JObj [(''id'', JStr ''abc123'')])"
              "JObj [(''id'', JStr ''abc123'')]" "''abc123''"]
  by (simp add: fresh_disk_def stored_def)

text \<open>
  The claim as the spec words it fails: a body whose id is the number 0 has an id that
  is present and is not empty, and is rejected all the same.
\<close>

theorem C2_save_counterexample:
  "snd (save_route fresh_disk (Some (JObj [(''id'', JNum (Fin 0))])))
     = Resp 400 (error_body ''Listing with id is required.'')
   \<and> \<not> id_absent_or_empty (Some (JObj [(''id'', JNum (Fin 0))]))"
  by (simp add: save_route_def id_absent_or_empty_def res_json_error)

section \<open>Saving and reading back\<close>

lemma get_route_found:
  assumes "data_file d = Holds (JArr (l # ls))" and "l \<noteq> JNull"
    and "get_prop l ''id'' = Some (JStr i)"
  shows "get_route d i = (d, Resp 200 (ok_body [(''listing'', stringify_parse l)]))"
  using assms
  by (simp add: get_route_def readListings_exists stored_def res_json_def
        stringify_parse_bodies)

text \<open>
  C3, as the code has it.  On a disk that can be written, whatever the file holds,
  saving a body whose id is a non-empty string and then asking for that id answers 200
  with the body as JSON carries it, whether or not the id was stored before: the body is
  put in front, and the lookup stops at the first match.  That is the body itself when
  all its numbers are finite and none is the negative zero.
\<close>

theorem C3_save_then_get_roundtrip:
  "get_prop r ''id'' = Some (JStr i) \<and> i \<noteq> [] \<and> writable d
   \<longrightarrow> snd (save_route d (Some r)) = Resp 200 (ok_body [])
       \<and> snd (get_route (fst (save_route d (Some r))) i)
           = Resp 200 (ok_body [(''listing'', stringify_parse r)])
       \<and> (json_stable r
            \<longrightarrow> snd (get_route (fst (save_route d (Some r))) i)
                = Resp 200 (ok_body [(''listing'', r)]))"
proof
  assume a: "get_prop r ''id'' = Some (JStr i) \<and> i \<noteq> [] \<and> writable d"
  then have "truthy (get_prop r ''id'')" and "writable d"
    by simp_all
  then have saved: "save_route d (Some r)
      = (d\<lparr>data_file := Holds (JArr (stringify_parse r # map stringify_parse (stored d)))\<rparr>,
         Resp 200 (ok_body []))"
    by (rule save_route_written)
  from a have id: "get_prop (stringify_parse r) ''id'' = Some (JStr i)"
    by (simp add: id_stringify_parse)
  then have "stringify_parse r \<noteq> JNull"
    by auto
  with id have "get_route
        (d\<lparr>data_file := Holds (JArr (stringify_parse r # map stringify_parse (stored d)))\<rparr>) i
      = (d\<lparr>data_file := Holds (JArr (stringify_parse r # map stringify_parse (stored d)))\<rparr>,
         Resp 200 (ok_body [(''listing'', stringify_parse (stringify_parse r))]))"
    by (intro get_route_found) simp_all
  with saved have returned: "snd (save_route d (Some r)) = Resp 200 (ok_body [])
       \<and> snd (get_route (fst (save_route d (Some r))) i)
           = Resp 200 (ok_body [(''listing'', stringify_parse r)])"
    by (simp add: stringify_parse_idem)
  moreover have "json_stable r \<longrightarrow> stringify_parse r = r"
    by (simp add: stringify_parse_stable)
  ultimately show "snd (save_route d (Some r)) = Resp 200 (ok_body [])
       \<and> snd (get_route (fst (save_route d (Some r))) i)
           = Resp 200 (ok_body [(''listing'', stringify_parse r)])
       \<and> (json_stable r
            \<longrightarrow> snd (get_route (fst (save_route d (Some r))) i)
                = Resp 200 (ok_body [(''listing'', r)]))"
    by metis
qed

theorem C3_roundtrip_witness:
  "snd (get_route
          (fst (save_route \<lparr>data_file = Holds (JArr [JObj [(''id'', JStr ''old'')]]), writable = True\<rparr>
                  (Some (JObj [(''id'', JStr ''abc123''), (''title'', JStr ''Cozy Bungalow''),
                               (''price'', JStr ''350000''), (''beds'', JStr ''3'')]))))
          ''abc123'')
     = Resp 200 (ok_body [(''listing'',
         JObj [(''id'', JStr ''abc123''), (''title'', JStr ''Cozy Bungalow''),
               (''price'', JStr ''350000''), (''beds'', JStr ''3'')])])"
  using C3_save_then_get_roundtrip
          [of "JObj [(''id'', JStr ''abc123''), (''title'', JStr ''Cozy Bungalow''),
                     (''price'', JStr ''350000''), (''beds'', JStr ''3'')]"
              "''abc123''"
              "\<lparr>data_file = Holds (JArr [JObj [(''id'', JStr ''old'')]]), writable = True\<rparr>"]
  by simp

text \<open>
  The claim as the spec words it fails twice.  An id that is not a string: the number 5
  is a present, non-empty id that occurs nowhere in the empty store, the body is saved,
  and \<^verbatim>\<open>GET /api/listings/5\<close> compares the stored number with the string \<^verbatim>\<open>"5"\<close> and
  answers 404.  A number beyond the doubles: the body with the id \<^verbatim>\<open>inf\<close> and the price
  \<^verbatim>\<open>1e999\<close> is saved, and comes back with the price \<^verbatim>\<open>null\<close>.
\<close>

theorem C3_roundtrip_counterexample:
  "snd (save_route fresh_disk (Some (JObj [(''id'', JNum (Fin 5))]))) = Resp 200 (ok_body [])
   \<and> snd (get_route (fst (save_route fresh_disk (Some (JObj [(''id'', JNum (Fin 5))])))) ''5'')
       = Resp 404 (error_body ''Listing not found.'')
   \<and> snd (save_route fresh_disk
             (Some (JObj [(''id'', JStr ''inf''), (''price'', JNum PosInf)])))
       = Resp 200 (ok_body [])
   \<and> snd (get_route
             (fst (save_route fresh_disk
                     (Some (JObj [(''id'', JStr ''inf''), (''price'', JNum PosInf)]))))
             ''inf'')
       = Resp 200 (ok_body [(''listing'', JObj [(''id'', JStr ''inf''), (''price'', JNull)])])
   \<and> JObj [(''id'', JStr ''inf''), (''price'', JNull)]
       \<noteq> JObj [(''id'', JStr ''inf''), (''price'', JNum PosInf)]"
  by (simp add: save_route_written fresh_disk_def get_route_def readListings_exists stored_def
        res_json_def stringify_parse_bodies error_body_def)

section \<open>Deleting\<close>

lemma filter_by_id_filter:
  "JNull \<notin> set ls \<Longrightarrow>
   filter_by_id ls i = Inr (filter (\<lambda>l. get_prop l ''id'' \<noteq> Some (JStr i)) ls)"
  by (induction ls) auto


lemma delete_route_written:
  assumes "JNull \<notin> set (stored d)" and "writable d"
  shows "delete_route d i
    = (d\<lparr>data_file := Holds (JArr (map stringify_parse
            (filter (\<lambda>l. get_prop l ''id'' \<noteq> Some (JStr i)) (stored d))))\<rparr>,
       Resp 200 (ok_body []))"
proof (cases "data_file d = Missing")
  case True
  with assms show ?thesis
    by (simp add: delete_route_def readListings_created writeListings_exists stored_Missing
          res_json_ok)
next
  case False
  with assms show ?thesis
    by (simp add: delete_route_def readListings_exists writeListings_exists filter_by_id_filter
          res_json_ok)
qed



lemma stable_records_unchanged:
  "list_all json_stable ls \<Longrightarrow> map stringify_parse ls = ls"
  by (induction ls) (simp_all add: stringify_parse_stable)

text \<open>
  C5.  On a store that can be written and whose records are not \<^verbatim>\<open>null\<close>, the delete route
  answers 200 and writes back, as JSON carries them, exactly the records whose id is not
  the string asked for, in their order: no record with that id is left, however many
  there were, and what is written is stable under a further write.  Records with finite
  numbers, as every record read from a JSON file is, are written back as they are, so
  that the store is unchanged when no record matches.
\<close>

theorem C5_delete_removes_every_match:
  "JNull \<notin> set (stored d) \<and> writable d
   \<longrightarrow> snd (delete_route d i) = Resp 200 (ok_body [])
       \<and> stored (fst (delete_route d i))
           = map stringify_parse (filter (\<lambda>l. get_prop l ''id'' \<noteq> Some (JStr i)) (stored d))
       \<and> (\<forall>l \<in> set (stored (fst (delete_route d i))). get_prop l ''id'' \<noteq> Some (JStr i))
       \<and> list_all json_stable (stored (fst (delete_route d i)))
       \<and> (list_all json_stable (stored d)
            \<longrightarrow> stored (fst (delete_route d i))
                  = filter (\<lambda>l. get_prop l ''id'' \<noteq> Some (JStr i)) (stored d)
                \<and> ((\<forall>l \<in> set (stored d). get_prop l ''id'' \<noteq> Some (JStr i))
                     \<longrightarrow> stored (fst (delete_route d i)) = stored d))"
proof
  assume a: "JNull \<notin> set (stored d) \<and> writable d"
  let ?kept = "filter (\<lambda>l. get_prop l ''id'' \<noteq> Some (JStr i)) (stored d)"
  from a have del: "delete_route d i
      = (d\<lparr>data_file := Holds (JArr (map stringify_parse ?kept))\<rparr>, Resp 200 (ok_body []))"
    by (simp add: delete_route_written)
  then have answer: "snd (delete_route d i) = Resp 200 (ok_body [])"
    by simp
  from del have left: "stored (fst (delete_route d i)) = map stringify_parse ?kept"
    by (simp add: stored_Holds)
  have none: "\<forall>l \<in> set (stored (fst (delete_route d i))). get_prop l ''id'' \<noteq> Some (JStr i)"
    unfolding left by (auto simp add: id_stringify_parse)
  have stable: "list_all json_stable (stored (fst (delete_route d i)))"
    unfolding left by (simp add: list_all_iff json_stable_stringify_parse)
  have same: "list_all json_stable (stored d)
            \<longrightarrow> stored (fst (delete_route d i)) = ?kept
                \<and> ((\<forall>l \<in> set (stored d). get_prop l ''id'' \<noteq> Some (JStr i))
                     \<longrightarrow> stored (fst (delete_route d i)) = stored d)"
  proof
    assume "list_all json_stable (stored d)"
    then have "list_all json_stable ?kept"
      by (simp add: list_all_iff)
    then have "map stringify_parse ?kept = ?kept"
      by (rule stable_records_unchanged)
    with left have kept: "stored (fst (delete_route d i)) = ?kept"
      by simp
    moreover have "(\<forall>l \<in> set (stored d). get_prop l ''id'' \<noteq> Some (JStr i))
                     \<longrightarrow> ?kept = stored d"
      by (simp add: filter_id_conv)
    ultimately show "stored (fst (delete_route d i)) = ?kept
                \<and> ((\<forall>l \<in> set (stored d). get_prop l ''id'' \<noteq> Some (JStr i))
                     \<longrightarrow> stored (fst (delete_route d i)) = stored d)"
      by simp
  qed
  from answer left none stable same
  show "snd (delete_route d i) = Resp 200 (ok_body [])
       \<and> stored (fst (delete_route d i)) = map stringify_parse ?kept
       \<and> (\<forall>l \<in> set (stored (fst (delete_route d i))). get_prop l ''id'' \<noteq> Some (JStr i))
       \<and> list_all json_stable (stored (fst (delete_route d i)))
       \<and> (list_all json_stable (stored d)
            \<longrightarrow> stored (fst (delete_route d i)) = ?kept
                \<and> ((\<forall>l \<in> set (stored d). get_prop l ''id'' \<noteq> Some (JStr i))
                     \<longrightarrow> stored (fst (delete_route d i)) = stored d))"
    by blast
qed

theorem C5_delete_witness:
  "snd (delete_route
          \<lparr>data_file = Holds (JArr [JObj [(''id'', JStr ''a''), (''title'', JStr ''one'')],
                                   JObj [(''id'', JStr ''b'')],
                                   JObj [(''id'', JStr ''a''), (''title'', JStr ''two'')],
                                   JObj [(''id'', JNum (Fin 7))]]),
           writable = True\<rparr> ''a'')
     = Resp 200 (ok_body [])
   \<and> stored (fst (delete_route
          \<lparr>data_file = Holds (JArr [JObj [(''id'', JStr ''a''), (''title'', JStr ''one'')],
                                   JObj [(''id'', JStr ''b'')],
                                   JObj [(''id'', JStr ''a''), (''title'', JStr ''two'')],
                                   JObj [(''id'', JNum (Fin 7))]]),
           writable = True\<rparr> ''a''))
       = [JObj [(''id'', JStr ''b'')], JObj [(''id'', JNum (Fin 7))]]"
  using C5_delete_removes_every_match
          [of "\<lparr>data_file = Holds (JArr [JObj [(''id'', JStr ''a''), (''title'', JStr ''one'')],
                                   JObj [(''id'', JStr ''b'')],
                                   JObj [(''id'', JStr ''a''), (''title'', JStr ''two'')],
                                   JObj [(''id'', JNum (Fin 7))]]),
                 writable = True\<rparr>" "''a''"]
  by (simp add: stored_def)
section \<open>The flyer: escaping and images\<close>

lemma replaceAll_Nil: "replaceAll c r [] = []"
  by (simp add: replaceAll_def)

lemma replaceAll_append: "replaceAll c r (a @ b) = replaceAll c r a @ replaceAll c r b"
  by (simp add: replaceAll_def)

lemma escape_one_char:
  "replaceAll (CHR 0x27) ''&#039;''
     (replaceAll (CHR 0x22) ''&quot;''
        (replaceAll CHR ''>'' ''&gt;''
           (replaceAll CHR ''<'' ''&lt;'' (replaceAll CHR ''&'' ''&amp;'' [c]))))
   = html_entity c"
  by (simp add: replaceAll_def html_entity_def)

lemma escape_chain:
  "replaceAll (CHR 0x27) ''&#039;''
     (replaceAll (CHR 0x22) ''&quot;''
        (replaceAll CHR ''>'' ''&gt;''
           (replaceAll CHR ''<'' ''&lt;'' (replaceAll CHR ''&'' ''&amp;'' s))))
   = concat (map html_entity s)"
proof (induction s)
  case Nil
  show ?case by (simp add: replaceAll_Nil)
next
  case (Cons c s)
  have "c # s = [c] @ s" by simp
  then show ?case
    using Cons.IH escape_one_char [of c]
    by (simp only: replaceAll_append) simp
qed

lemma escapeHtml_entities: "escapeHtml e v = concat (map html_entity (str_nullish e v))"
  unfolding escapeHtml_def by (rule escape_chain)

lemma html_safe_entity_append: "html_safe rest \<Longrightarrow> html_safe (html_entity c @ rest)"
  by (simp add: html_entity_def)

lemma html_safe_entities: "html_safe (concat (map html_entity s))"
  by (induction s) (simp_all add: html_safe_entity_append)

lemma html_safe_escapeHtml: "html_safe (escapeHtml e v)"
  by (simp add: escapeHtml_entities html_safe_entities)

lemma html_safe_append: "html_safe a \<Longrightarrow> html_safe b \<Longrightarrow> html_safe (a @ b)"
proof (induction a)
  case Nil
  then show ?case by simp
next
  case (Cons c a)
  then show ?case
    by (auto split: if_splits intro: prefix_prefix)
qed

lemma html_safe_plain:
  "CHR ''&'' \<notin> set s \<Longrightarrow> CHR ''<'' \<notin> set s \<Longrightarrow> CHR ''>'' \<notin> set s \<Longrightarrow>
     CHR 0x22 \<notin> set s \<Longrightarrow> CHR 0x27 \<notin> set s \<Longrightarrow> html_safe s"
  by (induction s) auto

lemma html_safe_no_lt: "html_safe s \<Longrightarrow> CHR ''<'' \<notin> set s"
  by (induction s) (auto split: if_splits)

lemma html_safe_no_specials:
  "html_safe s \<Longrightarrow>
     CHR ''<'' \<notin> set s \<and> CHR ''>'' \<notin> set s \<and> CHR 0x22 \<notin> set s \<and> CHR 0x27 \<notin> set s"
  by (induction s) (auto split: if_splits)

section \<open>Data URIs\<close>

lemma b64_char_in_alphabet:
  "b64_char i \<in> set ''ABCDEFGHIJKLMNOPQRSTUVWXYZabcdefghijklmnopqrstuvwxyz0123456789+/''"
  unfolding b64_char_def by (rule nth_mem) simp

lemma b64_char_plain:
  "b64_char i \<noteq> CHR ''&'' \<and> b64_char i \<noteq> CHR ''<'' \<and> b64_char i \<noteq> CHR ''>''
   \<and> b64_char i \<noteq> CHR 0x22 \<and> b64_char i \<noteq> CHR 0x27"
  using b64_char_in_alphabet [of i] by auto

lemma b64_char_plain_sym:
  "CHR ''&'' \<noteq> b64_char i \<and> CHR ''<'' \<noteq> b64_char i \<and> CHR ''>'' \<noteq> b64_char i
   \<and> CHR 0x22 \<noteq> b64_char i \<and> CHR 0x27 \<noteq> b64_char i"
  using b64_char_plain [of i] by metis

lemma base64_plain:
  "CHR ''&'' \<notin> set (base64 bs) \<and> CHR ''<'' \<notin> set (base64 bs) \<and> CHR ''>'' \<notin> set (base64 bs)
   \<and> CHR 0x22 \<notin> set (base64 bs) \<and> CHR 0x27 \<notin> set (base64 bs)"
  by (induction bs rule: base64.induct) (simp_all add: Let_def b64_char_plain b64_char_plain_sym)

lemma html_safe_base64: "html_safe (base64 bs)"
  using base64_plain [of bs] by (simp add: html_safe_plain)

lemma html_safe_mime: "html_safe (mime_of_ext x)"
  by (simp add: mime_of_ext_def)

lemma imageUrlToDataUri_Some:
  "imageUrlToDataUri e u = Some d \<longleftrightarrow>
     (\<exists>v bytes. u = Some v \<and> truthy u \<and> prefix ''/uploads/'' (js_String (num_text e) v)
        \<and> fs e (path_join (dirname e) (js_String (num_text e) v)) = Some (FileBytes bytes)
        \<and> d = ''data:''
               @ mime_of_ext (toLowerCase (extname (path_join (dirname e) (js_String (num_text e) v))))
               @ '';base64,'' @ base64 bytes)"
  by (auto simp: imageUrlToDataUri_def Let_def split: option.splits fsnode.splits)

lemma html_safe_data_uri: "imageUrlToDataUri e u = Some d \<Longrightarrow> html_safe d"
proof -
  assume "imageUrlToDataUri e u = Some d"
  then obtain x bytes where d: "d = ''data:'' @ mime_of_ext x @ '';base64,'' @ base64 bytes"
    unfolding imageUrlToDataUri_Some by blast
  have "html_safe ''data:''" and "html_safe '';base64,''"
    by simp_all
  then show "html_safe d"
    unfolding d by (intro html_safe_append html_safe_mime html_safe_base64)
qed

section \<open>The pieces of the flyer\<close>

lemma sub_safe_simps:
  "sub_safe (Lit l)" "sub_safe (Sub s) = html_safe s"
  by (simp_all add: sub_safe_def)

lemma escaped_block_safe: "list_all sub_safe (escaped_block e a v b)"
  by (simp add: escaped_block_def sub_safe_simps html_safe_escapeHtml)

lemma image_block_safe:
  "list_all sub_safe (image_block a (imageUrlToDataUri e u) b)"
  by (cases "imageUrlToDataUri e u")
     (simp_all add: image_block_def sub_safe_simps html_safe_data_uri)

lemma html_safe_em_dash: "html_safe em_dash"
  by (simp add: em_dash_def)

lemma html_safe_bullet_sep: "html_safe bullet_sep"
  by (simp add: bullet_sep_def)

lemma pdf_pieces_safe: "list_all sub_safe (pdf_pieces e listing)"
  by (simp add: pdf_pieces_def Let_def sub_safe_simps html_safe_escapeHtml escaped_block_safe
        image_block_safe html_safe_em_dash html_safe_append html_safe_bullet_sep)

section \<open>Text that cannot occur in the flyer\<close>

lemma clear_of_append:
  "clear_of pat l \<Longrightarrow> \<not> sublist pat r \<Longrightarrow> \<not> sublist pat (l @ r)"
proof (induction l)
  case Nil
  then show ?case by simp
next
  case (Cons x xs)
  from Cons.prems have rest: "\<not> sublist pat (xs @ r)"
    by (simp add: Cons.IH)
  have "\<not> prefix pat ((x # xs) @ r)"
  proof
    assume "prefix pat ((x # xs) @ r)"
    then have "prefix pat (x # xs) \<or> (\<exists>us. pat = (x # xs) @ us \<and> prefix us r)"
      by (simp only: prefix_append)
    with Cons.prems(1) show False
      by auto
  qed
  with rest show ?case
    by (simp add: sublist_Cons_right)
qed

lemma absent_head_append:
  "pat \<noteq> [] \<Longrightarrow> hd pat \<notin> set s \<Longrightarrow> \<not> sublist pat r \<Longrightarrow> \<not> sublist pat (s @ r)"
proof (induction s)
  case Nil
  then show ?case by simp
next
  case (Cons x xs)
  then have rest: "\<not> sublist pat (xs @ r)"
    by simp
  from Cons.prems have "\<not> prefix pat (x # xs @ r)"
    by (cases pat) auto
  with rest show ?case
    by (simp add: sublist_Cons_right)
qed

lemma no_occurrence_in_pieces:
  "pat \<noteq> [] \<Longrightarrow> list_all (piece_clear pat) ps \<Longrightarrow>
     \<not> sublist pat (concat (map piece_text ps))"
proof (induction ps)
  case Nil
  then show ?case by simp
next
  case (Cons p ps)
  then have rest: "\<not> sublist pat (concat (map piece_text ps))"
    by simp
  show ?case
  proof (cases p)
    case (Lit l)
    with Cons.prems have "clear_of pat l"
      by (simp add: piece_clear_def)
    with rest Lit show ?thesis
      by (simp add: clear_of_append)
  next
    case (Sub s)
    with Cons.prems have "hd pat \<notin> set s"
      by (simp add: piece_clear_def)
    with rest Sub Cons.prems(1) show ?thesis
      by (simp add: absent_head_append)
  qed
qed

lemma piece_clear_tag:
  "hd pat = CHR ''<'' \<Longrightarrow> list_all sub_safe ps \<Longrightarrow> list_all (clear_of pat) (literals ps)
     \<Longrightarrow> list_all (piece_clear pat) ps"
proof (induction ps)
  case Nil
  then show ?case by simp
next
  case (Cons p ps)
  show ?case
  proof (cases p)
    case (Lit l)
    with Cons.prems have l: "clear_of pat l" and lits: "list_all (clear_of pat) (literals ps)"
      and safe: "list_all sub_safe ps"
      by simp_all
    from Cons.prems(1) safe lits have "list_all (piece_clear pat) ps"
      by (rule Cons.IH)
    moreover from l have "piece_clear pat (Lit l)"
      by (simp add: piece_clear_def)
    ultimately show ?thesis
      using Lit by simp
  next
    case (Sub s)
    with Cons.prems have s: "html_safe s" and lits: "list_all (clear_of pat) (literals ps)"
      and safe: "list_all sub_safe ps"
      by (simp_all add: sub_safe_simps)
    from Cons.prems(1) safe lits have "list_all (piece_clear pat) ps"
      by (rule Cons.IH)
    moreover from s Cons.prems(1) have "piece_clear pat (Sub s)"
      by (simp add: piece_clear_def html_safe_no_lt)
    ultimately show ?thesis
      using Sub by simp
  qed
qed

lemma suffix_strip_leading: "suffix (strip_leading ws s) s"
proof (induction ws s rule: strip_leading.induct)
  case (1 ws s)
  show ?case
  proof (cases "find (\<lambda>w. w \<noteq> [] \<and> prefix w s) ws")
    case None
    then show ?thesis
      by (subst strip_leading.simps) simp
  next
    case (Some w)
    then have "suffix (strip_leading ws (drop (length w) s)) (drop (length w) s)"
      by (rule "1.IH")
    moreover have "suffix (drop (length w) s) s"
      by (rule suffix_drop)
    ultimately have "suffix (strip_leading ws (drop (length w) s)) s"
      by (rule suffix_order.trans)
    with Some show ?thesis
      by (subst strip_leading.simps) simp
  qed
qed

lemma sublist_js_trim: "sublist (js_trim s) s"
proof -
  have "suffix (strip_leading (map rev js_whitespace) (rev (strip_leading js_whitespace s)))
          (rev (strip_leading js_whitespace s))"
    by (rule suffix_strip_leading)
  then have "prefix (js_trim s) (strip_leading js_whitespace s)"
    by (simp add: js_trim_def suffix_to_prefix)
  moreover have "suffix (strip_leading js_whitespace s) s"
    by (rule suffix_strip_leading)
  ultimately show ?thesis
    unfolding sublist_altdef' by blast
qed

lemma no_tag_in_trimmed:
  assumes "hd pat = CHR ''<''" and "pat \<noteq> []" and "list_all sub_safe ps"
    and "list_all (clear_of pat) (literals ps)"
  shows "\<not> sublist pat (js_trim (concat (map piece_text ps)))"
proof
  assume "sublist pat (js_trim (concat (map piece_text ps)))"
  moreover have "sublist (js_trim (concat (map piece_text ps))) (concat (map piece_text ps))"
    by (rule sublist_js_trim)
  ultimately have "sublist pat (concat (map piece_text ps))"
    by (rule sublist_order.order.trans)
  moreover from assms have "list_all (piece_clear pat) ps"
    by (intro piece_clear_tag)
  with assms(2) have "\<not> sublist pat (concat (map piece_text ps))"
    by (rule no_occurrence_in_pieces)
  ultimately show False
    by simp
qed

lemma literals_append: "literals (ps @ qs) = literals ps @ literals qs"
  by (induction ps rule: literals.induct) simp_all

lemma literals_escaped_block:
  "P a \<Longrightarrow> P b \<Longrightarrow> list_all P (literals (escaped_block e a v b))"
  by (simp add: escaped_block_def)

lemma literals_image_block:
  "(u \<noteq> None \<Longrightarrow> P a \<and> P b) \<Longrightarrow> list_all P (literals (image_block a u b))"
  by (cases u) (simp_all add: image_block_def)

lemma literals_pdf_pieces:
  assumes base: "list_all P base_texts"
    and logo: "imageUrlToDataUri e
                 (get_prop (or_default (get_prop listing ''agent'') (JObj [])) ''logoUrl'') \<noteq> None
               \<Longrightarrow> list_all P logo_texts"
    and hero: "imageUrlToDataUri e (get_prop listing ''imageUrl'') \<noteq> None
               \<Longrightarrow> list_all P hero_texts"
  shows "list_all P (literals (pdf_pieces e listing))"
  unfolding pdf_pieces_def Let_def literals_append list_all_append
  using base [unfolded base_texts_def] logo [unfolded logo_texts_def]
    hero [unfolded hero_texts_def]
  by (intro conjI literals_escaped_block literals_image_block) simp_all

lemma tag_clear_base:
  \<open>list_all (clear_of ''<script'') base_texts\<close>
  \<open>list_all (clear_of ''<img'') base_texts\<close>
  \<open>list_all (clear_of ''<div class="hero">'') base_texts\<close>
  \<open>list_all (clear_of ''<div class="logoBox">'') base_texts\<close>
  by (simp_all add: base_texts_def
        tpl_00_def tpl_01_def tpl_02_def tpl_03_def tpl_04_def tpl_05_def tpl_06_def
        tpl_07_def tpl_08_def tpl_09_def tpl_10_def tpl_11_def tpl_12_def tpl_13_def
        tpl_14_def tpl_15_def tpl_16_def tpl_17_def tpl_18_def tpl_19_def)

lemma tag_clear_images:
  \<open>list_all (clear_of ''<script'') logo_texts\<close>
  \<open>list_all (clear_of ''<script'') hero_texts\<close>
  \<open>list_all (clear_of ''<div class="hero">'') logo_texts\<close>
  \<open>list_all (clear_of ''<div class="logoBox">'') hero_texts\<close>
  by (simp_all add: logo_texts_def hero_texts_def)

lemma buildPdfHtml_Inr:
  "buildPdfHtml e listing = Inr doc \<Longrightarrow>
     doc = js_trim (concat (map piece_text (pdf_pieces e listing)))"
  by (simp add: buildPdfHtml_def split: if_splits)

lemma no_script_in_flyer:
  "buildPdfHtml e listing = Inr doc \<Longrightarrow> \<not> sublist ''<script'' doc"
proof -
  assume "buildPdfHtml e listing = Inr doc"
  then have doc: "doc = js_trim (concat (map piece_text (pdf_pieces e listing)))"
    by (rule buildPdfHtml_Inr)
  have "list_all (clear_of ''<script'') (literals (pdf_pieces e listing))"
    by (intro literals_pdf_pieces tag_clear_base tag_clear_images)
  then show "\<not> sublist ''<script'' doc"
    unfolding doc by (intro no_tag_in_trimmed pdf_pieces_safe) simp_all
qed

text \<open>
  C1.  Every value the flyer template substitutes is safe text: it holds no angle
  bracket and no quote, and each ampersand in it starts one of the entities
  \<^verbatim>\<open>&amp;\<close>, \<^verbatim>\<open>&lt;\<close>, \<^verbatim>\<open>&gt;\<close>, \<^verbatim>\<open>&quot;\<close>, \<^verbatim>\<open>&#039;\<close>.  The escaping step
  replaces each of the five characters by its entity and keeps every other character.
  So no field of the listing can put a tag into the document: the text
  \<^verbatim>\<open><script\<close> occurs nowhere in it, and a title \<^verbatim>\<open><script>\<close> is substituted as
  \<^verbatim>\<open>&lt;script&gt;\<close>.
\<close>

theorem C1_flyer_escapes_input:
  "list_all sub_safe (pdf_pieces e listing)
   \<and> escapeHtml e v = concat (map html_entity (str_nullish e v))
   \<and> html_safe (escapeHtml e v)
   \<and> (buildPdfHtml e listing = Inr doc
        \<longrightarrow> doc = js_trim (concat (map piece_text (pdf_pieces e listing)))
            \<and> \<not> sublist ''<script'' doc)
   \<and> (get_prop listing ''title'' = Some (JStr ''<script>'')
        \<longrightarrow> pdf_pieces e listing ! 1 = Sub ''&lt;script&gt;'')"
proof (intro conjI impI)
  show "list_all sub_safe (pdf_pieces e listing)"
    by (rule pdf_pieces_safe)
  show "escapeHtml e v = concat (map html_entity (str_nullish e v))"
    by (rule escapeHtml_entities)
  show "html_safe (escapeHtml e v)"
    by (rule html_safe_escapeHtml)
  show "doc = js_trim (concat (map piece_text (pdf_pieces e listing)))"
    if "buildPdfHtml e listing = Inr doc"
    using that by (rule buildPdfHtml_Inr)
  show "\<not> sublist ''<script'' doc" if "buildPdfHtml e listing = Inr doc"
    using that by (rule no_script_in_flyer)
  show "pdf_pieces e listing ! 1 = Sub ''&lt;script&gt;''"
    if "get_prop listing ''title'' = Some (JStr ''<script>'')"
    using that
    by (simp add: pdf_pieces_def Let_def js_or_def escapeHtml_def str_nullish_def replaceAll_def)
qed

theorem C1_flyer_witness:
  \<open>buildPdfHtml sample_env (JObj [(''title'', JStr ''<script>'')])
     = Inr (js_trim (concat (map piece_text
              (pdf_pieces sample_env (JObj [(''title'', JStr ''<script>'')])))))
   \<and> \<not> sublist ''<script''
         (js_trim (concat (map piece_text
            (pdf_pieces sample_env (JObj [(''title'', JStr ''<script>'')])))))
   \<and> pdf_pieces sample_env (JObj [(''title'', JStr ''<script>'')]) ! 1 = Sub ''&lt;script&gt;''
   \<and> escapeHtml sample_env (Some (JStr ''a<b & "c"'')) = ''a&lt;b &amp; &quot;c&quot;''\<close>
  using C1_flyer_escapes_input
          [of sample_env "JObj [(''title'', JStr ''<script>'')]"
              \<open>Some (JStr ''a<b & "c"'')\<close>
              "js_trim (concat (map piece_text
                 (pdf_pieces sample_env (JObj [(''title'', JStr ''<script>'')]))))"]
  by (simp add: buildPdfHtml_def str_nullish_def html_entity_def)

lemma no_tag_without_image:
  assumes doc: "buildPdfHtml e listing = Inr doc"
    and tag: "hd pat = CHR ''<''" "pat \<noteq> []"
    and base: "list_all (clear_of pat) base_texts"
    and logo: "imageUrlToDataUri e
                 (get_prop (or_default (get_prop listing ''agent'') (JObj [])) ''logoUrl'') \<noteq> None
               \<Longrightarrow> list_all (clear_of pat) logo_texts"
    and hero: "imageUrlToDataUri e (get_prop listing ''imageUrl'') \<noteq> None
               \<Longrightarrow> list_all (clear_of pat) hero_texts"
  shows "\<not> sublist pat doc"
proof -
  from base logo hero have "list_all (clear_of pat) (literals (pdf_pieces e listing))"
    by (rule literals_pdf_pieces)
  with tag pdf_pieces_safe have
    "\<not> sublist pat (js_trim (concat (map piece_text (pdf_pieces e listing))))"
    by (rule no_tag_in_trimmed)
  moreover from doc have "doc = js_trim (concat (map piece_text (pdf_pieces e listing)))"
    by (rule buildPdfHtml_Inr)
  ultimately show ?thesis
    by simp
qed

lemma data_uri_substituted:
  "imageUrlToDataUri e (get_prop listing ''imageUrl'') = Some d \<Longrightarrow>
     Sub d \<in> set (pdf_pieces e listing)"
  by (simp add: pdf_pieces_def Let_def image_block_def)

text \<open>
  C8.  \<^verbatim>\<open>imageUrlToDataUri\<close> gives a data URI exactly when the reference is truthy,
  its text starts with \<^verbatim>\<open>/uploads/\<close>, and the path it joins to below the script's
  directory leads to a file that can be read; the URI is then \<^verbatim>\<open>data:\<close>, the MIME
  type, \<^verbatim>\<open>;base64,\<close> and the base64 text of the file's bytes.  The MIME type is
  \<^verbatim>\<open>image/png\<close> for the (lower-cased) extension \<^verbatim>\<open>.png\<close>, \<^verbatim>\<open>image/webp\<close> for
  \<^verbatim>\<open>.webp\<close>, and \<^verbatim>\<open>image/jpeg\<close> for every other.  When it gives nothing for the
  property image, the flyer has no hero block; when it gives nothing for the logo, the
  flyer has no logo block; when it gives nothing for both, the flyer has no image
  element at all.  When it gives a URI for the property image, that URI is substituted.
\<close>

theorem C8_image_inlining:
  \<open>(imageUrlToDataUri e u = Some d \<longleftrightarrow>
      (\<exists>v bytes. u = Some v \<and> truthy u \<and> prefix ''/uploads/'' (js_String (num_text e) v)
         \<and> fs e (path_join (dirname e) (js_String (num_text e) v)) = Some (FileBytes bytes)
         \<and> d = ''data:''
                @ mime_of_ext
                    (toLowerCase (extname (path_join (dirname e) (js_String (num_text e) v))))
                @ '';base64,'' @ base64 bytes))
   \<and> mime_of_ext ''.png'' = ''image/png''
   \<and> mime_of_ext ''.webp'' = ''image/webp''
   \<and> (x \<noteq> ''.png'' \<and> x \<noteq> ''.webp'' \<longrightarrow> mime_of_ext x = ''image/jpeg'')
   \<and> (buildPdfHtml e listing = Inr doc
        \<and> imageUrlToDataUri e (get_prop listing ''imageUrl'') = None
        \<longrightarrow> \<not> sublist ''<div class="hero">'' doc)
   \<and> (buildPdfHtml e listing = Inr doc
        \<and> imageUrlToDataUri e
              (get_prop (or_default (get_prop listing ''agent'') (JObj [])) ''logoUrl'') = None
        \<longrightarrow> \<not> sublist ''<div class="logoBox">'' doc)
   \<and> (buildPdfHtml e listing = Inr doc
        \<and> imageUrlToDataUri e (get_prop listing ''imageUrl'') = None
        \<and> imageUrlToDataUri e
              (get_prop (or_default (get_prop listing ''agent'') (JObj [])) ''logoUrl'') = None
        \<longrightarrow> \<not> sublist ''<img'' doc)
   \<and> (imageUrlToDataUri e (get_prop listing ''imageUrl'') = Some d
        \<longrightarrow> Sub d \<in> set (pdf_pieces e listing))\<close>
proof (intro conjI impI)
  show "imageUrlToDataUri e u = Some d \<longleftrightarrow>
      (\<exists>v bytes. u = Some v \<and> truthy u \<and> prefix ''/uploads/'' (js_String (num_text e) v)
         \<and> fs e (path_join (dirname e) (js_String (num_text e) v)) = Some (FileBytes bytes)
         \<and> d = ''data:''
                @ mime_of_ext
                    (toLowerCase (extname (path_join (dirname e) (js_String (num_text e) v))))
                @ '';base64,'' @ base64 bytes)"
    by (rule imageUrlToDataUri_Some)
  show "mime_of_ext ''.png'' = ''image/png''" and "mime_of_ext ''.webp'' = ''image/webp''"
    by (simp_all add: mime_of_ext_def)
  show "mime_of_ext x = ''image/jpeg''" if "x \<noteq> ''.png'' \<and> x \<noteq> ''.webp''"
    using that by (simp add: mime_of_ext_def)
  show \<open>\<not> sublist ''<div class="hero">'' doc\<close>
    if "buildPdfHtml e listing = Inr doc
        \<and> imageUrlToDataUri e (get_prop listing ''imageUrl'') = None"
  proof -
    from that have doc: "buildPdfHtml e listing = Inr doc"
      and none: "imageUrlToDataUri e (get_prop listing ''imageUrl'') = None"
      by simp_all
    show ?thesis
      by (rule no_tag_without_image [OF doc]) (simp_all add: none tag_clear_base tag_clear_images)
  qed
  show \<open>\<not> sublist ''<div class="logoBox">'' doc\<close>
    if "buildPdfHtml e listing = Inr doc
        \<and> imageUrlToDataUri e
              (get_prop (or_default (get_prop listing ''agent'') (JObj [])) ''logoUrl'') = None"
  proof -
    from that have doc: "buildPdfHtml e listing = Inr doc"
      and none: "imageUrlToDataUri e
              (get_prop (or_default (get_prop listing ''agent'') (JObj [])) ''logoUrl'') = None"
      by simp_all
    show ?thesis
      by (rule no_tag_without_image [OF doc]) (simp_all add: none tag_clear_base tag_clear_images)
  qed
  show "\<not> sublist ''<img'' doc"
    if "buildPdfHtml e listing = Inr doc
        \<and> imageUrlToDataUri e (get_prop listing ''imageUrl'') = None
        \<and> imageUrlToDataUri e
              (get_prop (or_default (get_prop listing ''agent'') (JObj [])) ''logoUrl'') = None"
  proof -
    from that have doc: "buildPdfHtml e listing = Inr doc"
      and none: "imageUrlToDataUri e (get_prop listing ''imageUrl'') = None"
        "imageUrlToDataUri e
              (get_prop (or_default (get_prop listing ''agent'') (JObj [])) ''logoUrl'') = None"
      by simp_all
    show ?thesis
      by (rule no_tag_without_image [OF doc]) (simp_all add: none tag_clear_base)
  qed
  show "Sub d \<in> set (pdf_pieces e listing)"
    if "imageUrlToDataUri e (get_prop listing ''imageUrl'') = Some d"
    using that by (rule data_uri_substituted)
qed

lemma sample_data_uri:
  "imageUrlToDataUri sample_env (Some (JStr ''/uploads/a.png''))
     = Some ''data:image/png;base64,YWJj''"
  "imageUrlToDataUri sample_env (Some (JStr ''/uploads/x/../b.WEBP''))
     = Some ''data:image/webp;base64,eHl6''"
  by (simp_all add: imageUrlToDataUri_def sample_env_def sample_fs_def path_join_def
        path_normalize_def extname_def basename_def toLowerCase_def lower_char_def
        mime_of_ext_def b64_char_def)

lemma sample_no_data_uri:
  "imageUrlToDataUri sample_env (Some (JStr ''https://example.com/uploads/a.png'')) = None"
  "imageUrlToDataUri sample_env (Some (JStr ''/uploads/missing.png'')) = None"
  "imageUrlToDataUri sample_env (Some (JStr ''/uploads/'')) = None"
  "imageUrlToDataUri sample_env None = None"
  by (simp_all add: imageUrlToDataUri_def sample_env_def sample_fs_def path_join_def
        path_normalize_def)

theorem C8_image_witness:
  "imageUrlToDataUri sample_env (Some (JStr ''/uploads/a.png''))
     = Some ''data:image/png;base64,YWJj''
   \<and> mime_of_ext ''.gif'' = ''image/jpeg''
   \<and> buildPdfHtml sample_env (JObj [(''imageUrl'', JStr ''https://example.com/uploads/a.png'')])
       = Inr (js_trim (concat (map piece_text (pdf_pieces sample_env
           (JObj [(''imageUrl'', JStr ''https://example.com/uploads/a.png'')])))))
   \<and> imageUrlToDataUri sample_env (Some (JStr ''https://example.com/uploads/a.png'')) = None
   \<and> \<not> sublist ''<img'' (js_trim (concat (map piece_text (pdf_pieces sample_env
           (JObj [(''imageUrl'', JStr ''https://example.com/uploads/a.png'')])))))
   \<and> Sub ''data:image/png;base64,YWJj''
       \<in> set (pdf_pieces sample_env (JObj [(''imageUrl'', JStr ''/uploads/a.png'')]))"
  using C8_image_inlining
          [of sample_env "Some (JStr ''/uploads/a.png'')" "''data:image/png;base64,YWJj''"
              "''.gif''" "JObj [(''imageUrl'', JStr ''https://example.com/uploads/a.png'')]"
              "js_trim (concat (map piece_text (pdf_pieces sample_env
                 (JObj [(''imageUrl'', JStr ''https://example.com/uploads/a.png'')]))))"]
        C8_image_inlining
          [of sample_env "Some (JStr ''/uploads/a.png'')" "''data:image/png;base64,YWJj''"
              "''.gif''" "JObj [(''imageUrl'', JStr ''/uploads/a.png'')]" "[]"]
        sample_data_uri sample_no_data_uri
  by (simp add: buildPdfHtml_def or_default_def)
section \<open>Price and square-footage formatting\<close>

lemmas fmt_eval =
  str_nullish_def js_trim_def js_whitespace_def digits_and_dots_def is_digit_def
  js_Number_def digits_value_def to_double_def intl_currency_def intl_decimal_def
  intl_integer_def group3_def digit_char_def

lemma fmtCurrency_450000: "fmtCurrency e (Some (JStr ''450000'')) = ''$450,000''"
  by (simp add: fmtCurrency_def fmt_eval)

lemma fmtCurrency_formatted: "fmtCurrency e (Some (JStr ''$450,000'')) = ''$450,000''"
  by (simp add: fmtCurrency_def fmt_eval)

lemma fmtCurrency_NA: "fmtCurrency e (Some (JStr ''N/A'')) = ''$0''"
  by (simp add: fmtCurrency_def fmt_eval)

lemma fmtNumber_dollar: "fmtNumber e (Some (JStr ''$1200'')) = ''1,200''"
  by (simp add: fmtNumber_def fmt_eval)

lemma price_card_NA:
  "Sub ''$0'' \<in> set (pdf_pieces e (JObj [(''price'', JStr ''N/A'')]))"
  by (simp add: pdf_pieces_def Let_def fmtCurrency_NA js_or_def escapeHtml_def replaceAll_def
        str_nullish_def)

lemma not_digit_dot: "\<not> is_digit (CHR ''.'')"
  by (simp add: is_digit_def)

lemma digits_no_dot: "list_all is_digit ds \<Longrightarrow> CHR ''.'' \<notin> set ds"
  using not_digit_dot by (auto simp: list_all_iff)

lemma digits_filter_dot: "list_all is_digit ds \<Longrightarrow> filter (\<lambda>c. c = CHR ''.'') ds = []"
  using digits_no_dot [of ds] by (auto simp: filter_empty_conv)

lemma takeWhile_digits: "list_all is_digit (takeWhile is_digit t)"
  by (induction t) auto

lemma digits_value_snoc:
  "digits_value (ds @ [c]) = 10 * digits_value ds + ((of_char c :: nat) - 48)"
  by (simp add: digits_value_def)

lemma digits_value_append:
  "digits_value (a @ b) = digits_value a * 10 ^ length b + digits_value b"
proof (induction b rule: rev_induct)
  case Nil
  show ?case by (simp add: digits_value_def)
next
  case (snoc c b)
  have "digits_value (a @ b @ [c]) = 10 * digits_value (a @ b) + ((of_char c :: nat) - 48)"
    using digits_value_snoc [of "a @ b" c] by simp
  also have "\<dots> = 10 * (digits_value a * 10 ^ length b + digits_value b)
                    + ((of_char c :: nat) - 48)"
    by (simp only: snoc.IH)
  also have "\<dots> = digits_value a * 10 ^ length (b @ [c])
                    + (10 * digits_value b + ((of_char c :: nat) - 48))"
    by (simp add: algebra_simps)
  also have "\<dots> = digits_value a * 10 ^ length (b @ [c]) + digits_value (b @ [c])"
    by (simp only: digits_value_snoc)
  finally show ?case .
qed

lemma numeral_value_all_digits:
  assumes "list_all is_digit t"
  shows "numeral_value t = of_nat (digits_value t)"
proof -
  from assms have "CHR ''.'' \<notin> set t"
    by (rule digits_no_dot)
  then have "\<forall>c \<in> set t. c \<noteq> CHR ''.''"
    by blast
  then have d: "dropWhile (\<lambda>c. c \<noteq> CHR ''.'') t = []"
    by (simp only: dropWhile_eq_Nil_conv)
  from assms have f: "filter is_digit t = t"
    by (simp add: list_all_iff)
  show ?thesis
    unfolding numeral_value_def d f by simp
qed

lemma numeral_value_with_dot:
  assumes ip: "list_all is_digit ip" and fp: "list_all is_digit fp"
  shows "numeral_value (ip @ CHR ''.'' # fp)
           = of_nat (digits_value ip) + of_nat (digits_value fp) / 10 ^ length fp"
proof -
  from ip have "\<And>c. c \<in> set ip \<Longrightarrow> c \<noteq> CHR ''.''"
    using digits_no_dot by blast
  then have drop: "dropWhile (\<lambda>c. c \<noteq> CHR ''.'') (ip @ CHR ''.'' # fp) = CHR ''.'' # fp"
    by simp
  from ip fp have digits: "filter is_digit (ip @ CHR ''.'' # fp) = ip @ fp"
    by (simp add: list_all_iff not_digit_dot)
  from fp have after: "filter is_digit (CHR ''.'' # fp) = fp"
    by (simp add: list_all_iff not_digit_dot)
  have "numeral_value (ip @ CHR ''.'' # fp)
          = of_nat (digits_value ip * 10 ^ length fp + digits_value fp) / 10 ^ length fp"
    by (simp only: numeral_value_def drop digits after digits_value_append)
  also have "\<dots> = of_nat (digits_value ip) + of_nat (digits_value fp) / 10 ^ length fp"
    by (simp add: add_divide_distrib)
  finally show ?thesis .
qed

lemma decimal_numeral_all_digits:
  assumes all: "list_all is_digit t" and ne: "t \<noteq> []"
  shows "decimal_numeral t"
proof -
  from all have "list_all (\<lambda>c. is_digit c \<or> c = CHR ''.'') t"
    by (simp add: list_all_iff)
  moreover from all have "CHR ''.'' \<notin> set t"
    by (rule digits_no_dot)
  then have "filter (\<lambda>c. c = CHR ''.'') t = []"
    by (auto simp: filter_empty_conv)
  moreover from all have "filter is_digit t = t"
    by (simp add: list_all_iff)
  ultimately show ?thesis
    using ne by (simp add: decimal_numeral_def)
qed

lemma js_Number_numeral:
  assumes dd: "list_all (\<lambda>c. is_digit c \<or> c = CHR ''.'') t" and ne: "t \<noteq> []"
  shows "js_Number t = (if decimal_numeral t then to_double (numeral_value t) else NaN)"
proof -
  define ip where "ip = takeWhile is_digit t"
  define rest where "rest = dropWhile is_digit t"
  have t: "t = ip @ rest"
    by (simp add: ip_def rest_def)
  have ip: "list_all is_digit ip"
    unfolding ip_def by (rule takeWhile_digits)
  have scan: "js_Number t =
      (case rest of
         [] \<Rightarrow> to_double (of_nat (digits_value ip))
       | c # fp \<Rightarrow>
           if c = CHR ''.'' \<and> list_all is_digit fp \<and> (ip \<noteq> [] \<or> fp \<noteq> [])
           then to_double (of_nat (digits_value ip) + of_nat (digits_value fp) / 10 ^ length fp)
           else NaN)"
    unfolding ip_def rest_def using ne by (simp add: js_Number_def Let_def)
  show ?thesis
  proof (cases rest)
    case Nil
    with t ip have all: "list_all is_digit t"
      by simp
    from all ne have "decimal_numeral t"
      by (rule decimal_numeral_all_digits)
    moreover from all have "numeral_value t = of_nat (digits_value t)"
      by (rule numeral_value_all_digits)
    moreover from Nil t scan have "js_Number t = to_double (of_nat (digits_value t))"
      by simp
    ultimately show ?thesis
      by simp
  next
    case (Cons c fp)
    from Cons have "dropWhile is_digit t \<noteq> []"
      by (simp add: rest_def)
    then have "\<not> is_digit (hd (dropWhile is_digit t))"
      by (rule hd_dropWhile)
    with Cons have "\<not> is_digit c"
      by (simp add: rest_def)
    moreover from dd t Cons have "is_digit c \<or> c = CHR ''.''"
      by (simp add: list_all_iff)
    ultimately have c: "c = CHR ''.''"
      by simp
    have t': "t = ip @ CHR ''.'' # fp"
      using t Cons c by simp
    have number: "js_Number t =
        (if list_all is_digit fp \<and> (ip \<noteq> [] \<or> fp \<noteq> [])
         then to_double (of_nat (digits_value ip) + of_nat (digits_value fp) / 10 ^ length fp)
         else NaN)"
      using scan Cons c by simp
    show ?thesis
    proof (cases "list_all is_digit fp")
      case True
      with ip have nv:
        "numeral_value t = of_nat (digits_value ip) + of_nat (digits_value fp) / 10 ^ length fp"
        unfolding t' by (rule numeral_value_with_dot)
      from ip True have "filter is_digit t = ip @ fp"
        unfolding t' by (simp add: list_all_iff not_digit_dot)
      moreover from ip True have "filter (\<lambda>c. c = CHR ''.'') t = [CHR ''.'']"
        unfolding t' by (simp add: digits_filter_dot)
      moreover from dd have "list_all (\<lambda>c. is_digit c \<or> c = CHR ''.'') t" .
      ultimately have "decimal_numeral t \<longleftrightarrow> ip \<noteq> [] \<or> fp \<noteq> []"
        by (simp add: decimal_numeral_def)
      with number nv True show ?thesis
        by simp
    next
      case False
      then obtain x where x: "x \<in> set fp" "\<not> is_digit x"
        by (auto simp: list_all_iff)
      with dd have "x = CHR ''.''"
        unfolding t' by (auto simp: list_all_iff)
      with x have "CHR ''.'' \<in> set fp"
        by simp
      then have "filter (\<lambda>c. c = CHR ''.'') fp \<noteq> []"
        by (auto simp: filter_empty_conv)
      then have "1 \<le> length (filter (\<lambda>c. c = CHR ''.'') fp)"
        by (simp add: Suc_le_eq)
      then have "2 \<le> length (filter (\<lambda>c. c = CHR ''.'') t)"
        unfolding t' by simp
      then have "\<not> decimal_numeral t"
        by (simp add: decimal_numeral_def)
      with number False show ?thesis
        by simp
    qed
  qed
qed

lemma digits_and_dots_all:
  "list_all (\<lambda>c. is_digit c \<or> c = CHR ''.'') (digits_and_dots s)"
  by (simp add: digits_and_dots_def list_all_iff)

lemma js_Number_stripped:
  assumes "digits_and_dots s \<noteq> []"
  shows "js_Number (digits_and_dots s)
           = (if decimal_numeral (digits_and_dots s)
                 \<and> numeral_value (digits_and_dots s) < 2 ^ 1024 - 2 ^ 970
              then Finite (numeral_value (digits_and_dots s))
              else if decimal_numeral (digits_and_dots s) then Infinity else NaN)"
  using js_Number_numeral [OF digits_and_dots_all assms]
  by (simp add: to_double_def not_less)

lemma js_Number_empty: "js_Number [] = Finite 0"
  by (simp add: js_Number_def)

lemma intl_integer_exact: "n \<le> 2 ^ 53 \<Longrightarrow> intl_integer e (of_nat n) = n"
proof -
  assume "n \<le> 2 ^ 53"
  then have "(of_nat n :: rat) \<le> of_nat (2 ^ 53)"
    by (simp only: of_nat_le_iff)
  then show ?thesis
    by (simp add: intl_integer_def)
qed

lemma filter_group_rev:
  "filter (\<lambda>c. c \<noteq> CHR '','') (group_rev r) = filter (\<lambda>c. c \<noteq> CHR '','') r"
  by (induction r rule: group_rev.induct) simp_all

lemma group3_digits:
  "CHR '','' \<notin> set ds \<Longrightarrow> filter (\<lambda>c. c \<noteq> CHR '','') (group3 ds) = ds"
proof -
  assume "CHR '','' \<notin> set ds"
  then have "filter (\<lambda>c. c \<noteq> CHR '','') ds = ds"
    by (auto simp: filter_id_conv)
  then show ?thesis
    by (simp add: group3_def filter_group_rev flip: rev_filter)
qed

lemma fmtNumber_no_digits:
  assumes "s = js_trim (str_nullish e v)" and "s \<noteq> []" and "CHR '','' \<notin> set s"
    and "digits_and_dots s = []"
  shows "fmtNumber e v = ''0''"
  using assms
  by (simp add: fmtNumber_def Let_def js_Number_empty intl_decimal_def intl_integer_def
        group3_def digit_char_def)

lemma fmtCurrency_no_digits:
  assumes "s = js_trim (str_nullish e v)" and "s \<noteq> []" and "CHR ''$'' \<notin> set s"
    and "CHR '','' \<notin> set s" and "digits_and_dots s = []"
  shows "fmtCurrency e v = ''$0''"
  using assms
  by (simp add: fmtCurrency_def Let_def js_Number_empty intl_currency_def intl_integer_def
        group3_def digit_char_def)

text \<open>
  C6.  The price formatter on the spec's three examples: \<^verbatim>\<open>450000\<close> becomes
  \<^verbatim>\<open>$450,000\<close>, \<^verbatim>\<open>$450,000\<close> is passed through, and \<^verbatim>\<open>N/A\<close> becomes \<^verbatim>\<open>$0\<close>
  and is not passed through.  So does every text without a dollar sign, a comma, a
  digit and a dot that is not blank: the regular expression leaves nothing of it,
  \<^verbatim>\<open>Number("")\<close> is 0, and the check \<^verbatim>\<open>Number.isFinite\<close> passes.  The price card of
  the flyer then shows \<^verbatim>\<open>$0\<close>.
\<close>

theorem C6_fmtCurrency_examples:
  "fmtCurrency e (Some (JStr ''450000'')) = ''$450,000''
   \<and> fmtCurrency e (Some (JStr ''$450,000'')) = ''$450,000''
   \<and> fmtCurrency e (Some (JStr ''N/A'')) = ''$0''
   \<and> fmtCurrency e (Some (JStr ''N/A'')) \<noteq> ''N/A''
   \<and> Sub ''$0'' \<in> set (pdf_pieces e (JObj [(''price'', JStr ''N/A'')]))
   \<and> (s = js_trim (str_nullish e v) \<and> s \<noteq> [] \<and> CHR ''$'' \<notin> set s \<and> CHR '','' \<notin> set s
        \<and> digits_and_dots s = []
        \<longrightarrow> fmtCurrency e v = ''$0'')"
  using fmtCurrency_450000 [of e] fmtCurrency_formatted [of e] fmtCurrency_NA [of e]
    price_card_NA [of e] fmtCurrency_no_digits [of s e v]
  by auto

theorem C6_fmtCurrency_witness:
  "js_trim (str_nullish sample_env (Some (JStr '' tbd ''))) = ''tbd''
   \<and> digits_and_dots ''tbd'' = []
   \<and> fmtCurrency sample_env (Some (JStr '' tbd '')) = ''$0''
   \<and> fmtCurrency sample_env (Some (JStr ''N/A'')) = ''$0''"
  using C6_fmtCurrency_examples [of sample_env "''tbd''" "Some (JStr '' tbd '')"]
  by (simp add: str_nullish_def js_trim_def js_whitespace_def digits_and_dots_def is_digit_def)

text \<open>
  C7, as the code has it.  With \<open>s\<close> the trimmed text of the value: a blank \<open>s\<close>
  gives the empty string; an \<open>s\<close> with a comma is returned as it is (a dollar sign does
  not stop the formatting).  Otherwise every character but digits and dots is dropped,
  and when something is left: if it is a decimal numeral below the overflow threshold
  of doubles, the result is the integer printed for its value with a comma before each
  group of three digits, and if not, \<open>s\<close> as it is.  For an \<open>s\<close> of digits only, up
  to \<open>2^53\<close>, the result is its decimal text grouped.  Taking the commas out of a
  grouped text gives the text back.  What happens when nothing is left (no digit and no
  dot in \<open>s\<close>) is not part of this statement.
\<close>

theorem C7_fmtNumber_rule:
  "s = js_trim (str_nullish e v) \<longrightarrow>
     (s = [] \<longrightarrow> fmtNumber e v = [])
     \<and> (CHR '','' \<in> set s \<longrightarrow> fmtNumber e v = s)
     \<and> (CHR '','' \<notin> set s \<and> digits_and_dots s \<noteq> [] \<longrightarrow>
          fmtNumber e v
            = (if decimal_numeral (digits_and_dots s)
                  \<and> numeral_value (digits_and_dots s) < 2 ^ 1024 - 2 ^ 970
               then group3 (decimal (intl_integer e (numeral_value (digits_and_dots s))))
               else s))
     \<and> (s \<noteq> [] \<and> list_all is_digit s \<and> digits_value s \<le> 2 ^ 53 \<longrightarrow>
          fmtNumber e v = group3 (decimal (digits_value s)))
     \<and> (CHR '','' \<notin> set ds \<longrightarrow> filter (\<lambda>c. c \<noteq> CHR '','') (group3 ds) = ds)"
proof (intro impI conjI)
  assume s: "s = js_trim (str_nullish e v)"
  show "fmtNumber e v = []" if "s = []"
    using that s by (simp add: fmtNumber_def Let_def)
  show "fmtNumber e v = s" if "CHR '','' \<in> set s"
    using that s by (auto simp: fmtNumber_def Let_def)
  show "fmtNumber e v
            = (if decimal_numeral (digits_and_dots s)
                  \<and> numeral_value (digits_and_dots s) < 2 ^ 1024 - 2 ^ 970
               then group3 (decimal (intl_integer e (numeral_value (digits_and_dots s))))
               else s)"
    if "CHR '','' \<notin> set s \<and> digits_and_dots s \<noteq> []"
  proof -
    from that have "s \<noteq> []"
      by (auto simp: digits_and_dots_def)
    with that s show ?thesis
      by (simp add: fmtNumber_def Let_def js_Number_stripped intl_decimal_def)
  qed
  show "fmtNumber e v = group3 (decimal (digits_value s))"
    if "s \<noteq> [] \<and> list_all is_digit s \<and> digits_value s \<le> 2 ^ 53"
  proof -
    from that have digits: "list_all is_digit s" and ne: "s \<noteq> []"
      and small: "digits_value s \<le> 2 ^ 53"
      by simp_all
    have "\<not> is_digit (CHR '','')"
      by (simp add: is_digit_def)
    with digits have comma: "CHR '','' \<notin> set s"
      by (auto simp: list_all_iff)
    from digits have dd: "digits_and_dots s = s"
      by (simp add: digits_and_dots_def list_all_iff)
    from digits ne have "js_Number s = to_double (of_nat (digits_value s))"
      using js_Number_numeral [of s] decimal_numeral_all_digits numeral_value_all_digits
      by (simp add: list_all_iff)
    moreover from small have "(of_nat (digits_value s) :: rat) \<le> of_nat (2 ^ 53)"
      by (simp only: of_nat_le_iff)
    then have "(of_nat (digits_value s) :: rat) < 2 ^ 1024 - 2 ^ 970"
      by simp
    ultimately have "js_Number s = Finite (of_nat (digits_value s))"
      by (simp add: to_double_def)
    with s ne comma dd small show ?thesis
      by (simp add: fmtNumber_def Let_def intl_decimal_def intl_integer_exact)
  qed
  show "filter (\<lambda>c. c \<noteq> CHR '','') (group3 ds) = ds" if "CHR '','' \<notin> set ds"
    using that by (rule group3_digits)
qed

theorem C7_fmtNumber_witness:
  "fmtNumber sample_env (Some (JStr '' 1234567 ''))  = ''1,234,567''
   \<and> fmtNumber sample_env (Some (JStr ''1,200'')) = ''1,200''
   \<and> fmtNumber sample_env (Some (JStr ''1.2.3'')) = ''1.2.3''
   \<and> fmtNumber sample_env (Some (JStr ''about 1200 sqft'')) = ''1,200''
   \<and> filter (\<lambda>c. c \<noteq> CHR '','') (group3 ''1234567'') = ''1234567''"
  using C7_fmtNumber_rule [of "''1234567''" sample_env "Some (JStr '' 1234567 '')" "''1234567''"]
        C7_fmtNumber_rule [of "''1,200''" sample_env "Some (JStr ''1,200'')" "[]"]
        C7_fmtNumber_rule [of "''1.2.3''" sample_env "Some (JStr ''1.2.3'')" "[]"]
        C7_fmtNumber_rule [of "''about 1200 sqft''" sample_env "Some (JStr ''about 1200 sqft'')" "[]"]
  by (simp add: fmt_eval decimal_numeral_def numeral_value_def)

text \<open>
  The claim as the spec words it fails: \<^verbatim>\<open>$1200\<close> holds a currency symbol and is not
  passed through, it is formatted.
\<close>

theorem C7_fmtNumber_counterexample:
  "fmtNumber sample_env (Some (JStr ''$1200'')) = ''1,200''
   \<and> fmtNumber sample_env (Some (JStr ''$1200'')) \<noteq> ''$1200''"
  by (simp add: fmtNumber_dollar)

section \<open>The persisted form\<close>
















lemma stored_created: "data_file d = Missing \<Longrightarrow> stored (d\<lparr>data_file := Holds (JArr [])\<rparr>) = stored d"
  by (simp add: stored_def)









end
